theory Spec2Isabelle
  imports Complex_Main
begin

section \<open>Equilibration-based initialisation (opm/core/simulator/initStateEquil.hpp)\<close>

text \<open>
  The C++ type \<open>double\<close> is modelled by \<open>real\<close>: every statement below is a
  statement of exact arithmetic. A \<open>std::vector<double>\<close> is a \<open>real list\<close>, a
  \<open>std::vector< std::vector<double> >\<close> a \<open>real list list\<close> (one inner vector per
  active phase position). Cell numbers and phase positions are \<open>int\<close> in the source
  but only name cells and index vectors; they are \<open>nat\<close> here.

  Indexing a \<open>std::vector\<close> out of range is undefined behaviour in the source. The
  model uses \<open>xs ! i\<close> and \<open>xs[i := v]\<close>; every theorem that reads an entry states
  the shape conditions under which the source is defined.
\<close>

subsection \<open>Collaborators that are declared outside this header\<close>

text \<open>
  Modelled from the spec: \<open>BlackoilPhases\<close> and \<open>PhaseUsage\<close>
  (opm/core/props/BlackoilPhases.hpp). Section 3: a fixed-size mapping from phase
  identity (Aqua/water, Liquid/oil, Vapour/gas) to an is-active flag and a compact
  position index.
\<close>

datatype PhaseIndex = Aqua | Liquid | Vapour

record PhaseUsage =
  phase_used :: "PhaseIndex \<Rightarrow> bool"
  phase_pos :: "PhaseIndex \<Rightarrow> nat"

text \<open>
  Modelled from the spec: \<open>EquilRecord\<close> (EquilibrationHelpers.hpp). Section 3: datum
  depth and pressure, water-oil contact depth and capillary pressure, gas-oil contact
  depth and capillary pressure; the order of the fields is the order of the aggregate
  initialiser in \<open>getEquil\<close>.
\<close>

record EquilRecord =
  main_depth :: real
  main_press :: real
  woc_depth :: real
  woc_press :: real
  goc_depth :: real
  goc_press :: real

text \<open>
  Modelled from the spec: \<open>EquilReg\<close> (EquilibrationHelpers.hpp). Section 3: the
  binding of one equilibration record, a density evaluator and the phase usage. The
  density calculator is represented by the representative cell it was built for; the
  two \<open>NoMixing\<close> policies carry no data.
\<close>

record EquilReg =
  reg_rec :: EquilRecord
  reg_repcell :: nat
  reg_pu :: PhaseUsage

definition datum :: "EquilReg \<Rightarrow> real" where
  "datum reg = main_depth (reg_rec reg)"

definition zwoc :: "EquilReg \<Rightarrow> real" where
  "zwoc reg = woc_depth (reg_rec reg)"

definition zgoc :: "EquilReg \<Rightarrow> real" where
  "zgoc reg = goc_depth (reg_rec reg)"

definition phaseUsage :: "EquilReg \<Rightarrow> PhaseUsage" where
  "phaseUsage reg = reg_pu reg"

text \<open>
  Modelled from the spec: \<open>BlackoilPropertiesInterface\<close>
  (opm/core/props/BlackoilPropertiesInterface.hpp). Section 6:
  \<open>saturationRange(cell) \<rightarrow> (s_min, s_max)\<close> per phase. \<open>satRange\<close> returns the two
  arrays \<open>smin\<close> and \<open>smax\<close>, indexed by phase position.
\<close>

record BlackoilPropertiesInterface =
  numPhases :: nat
  props_phaseUsage :: PhaseUsage
  satRange :: "nat \<Rightarrow> real list \<times> real list"

text \<open>
  The capillary-pressure inverters \<open>satFromPc\<close> and \<open>satFromSumOfPcs\<close>
  (EquilibrationHelpers.hpp) are not part of this header: they are parameters of the
  model. \<open>satFromPc h props phase cell target_pc increasing\<close> and
  \<open>satFromSumOfPcs h props phase1 phase2 cell target_pc\<close> take their arguments in
  the order of the calls in \<open>phaseSaturations\<close>.
\<close>

record EquilibrationHelpers =
  satFromPc :: "BlackoilPropertiesInterface \<Rightarrow> nat \<Rightarrow> nat \<Rightarrow> real \<Rightarrow> bool \<Rightarrow> real"
  satFromSumOfPcs :: "BlackoilPropertiesInterface \<Rightarrow> nat \<Rightarrow> nat \<Rightarrow> nat \<Rightarrow> real \<Rightarrow> real"

text \<open>
  Modelled from the spec: the default value of the parameter \<open>increasing\<close> of
  \<open>satFromPc\<close>, whose declaration is not in this header. The water-oil call passes
  four arguments only; section 4.4, step 2: invert water-oil \<open>pc\<close>
  (decreasing-direction variant).
\<close>

definition satFromPc_default_increasing :: bool where
  "satFromPc_default_increasing = False"

subsection \<open>Errors\<close>

text \<open>\<open>OPM_THROW\<close> and \<open>DUNE_THROW\<close> with the exception class and its message.\<close>

datatype error =
  RuntimeError string
  | DomainError string
  | NotImplemented string
  | RangeError string

subsection \<open>phaseSaturations\<close>

text \<open>\<open>phase_saturations[p][i] = v\<close>.\<close>

definition assign2 :: "real list list \<Rightarrow> nat \<Rightarrow> nat \<Rightarrow> real \<Rightarrow> real list list" where
  "assign2 a p i v = a[p := (a ! p)[i := v]]"

text \<open>
  The body of the loop over the cells of the region, lines 152 to 181: the saturations
  of cell \<open>cell\<close>, at \<open>local_index\<close>, are written into \<open>phase_saturations\<close>.
\<close>

definition cell_saturations ::
  "EquilibrationHelpers \<Rightarrow> EquilReg \<Rightarrow> BlackoilPropertiesInterface \<Rightarrow> real list list \<Rightarrow>
   nat \<Rightarrow> nat \<Rightarrow> real list list \<Rightarrow> real list list" where
  "cell_saturations h reg props phase_pressures cell local_index phase_saturations =
    (let water = phase_used (phaseUsage reg) Aqua;
         gas = phase_used (phaseUsage reg) Vapour;
         oilpos = phase_pos (phaseUsage reg) Liquid;
         waterpos = phase_pos (phaseUsage reg) Aqua;
         gaspos = phase_pos (phaseUsage reg) Vapour;
         (smin, smax) = satRange props cell;
         sw = 0;
         (sw, phase_saturations) =
           (if water then
              let pcov = phase_pressures ! oilpos ! local_index
                         - phase_pressures ! waterpos ! local_index;
                  sw = satFromPc h props waterpos cell pcov satFromPc_default_increasing
              in (sw, assign2 phase_saturations waterpos local_index sw)
            else (sw, phase_saturations));
         sg = 0;
         (sg, phase_saturations) =
           (if gas then
              let pcog = phase_pressures ! gaspos ! local_index
                         - phase_pressures ! oilpos ! local_index;
                  increasing = True;
                  sg = satFromPc h props gaspos cell pcog increasing
              in (sg, assign2 phase_saturations gaspos local_index sg)
            else (sg, phase_saturations));
         (sw, sg, phase_saturations) =
           (if gas \<and> water \<and> sg + sw > 1 then
              let pcgw = phase_pressures ! gaspos ! local_index
                         - phase_pressures ! waterpos ! local_index;
                  sw = satFromSumOfPcs h props waterpos gaspos cell pcgw;
                  sg = 1 - sw
              in (sw, sg,
                  assign2 (assign2 phase_saturations waterpos local_index sw)
                    gaspos local_index sg)
            else (sw, sg, phase_saturations))
     in assign2 phase_saturations oilpos local_index (1 - sw - sg))"

text \<open>The loop of line 151: the iterator \<open>ci\<close> runs through \<open>cells\<close>, \<open>local_index\<close> counts.\<close>

fun cells_loop ::
  "EquilibrationHelpers \<Rightarrow> EquilReg \<Rightarrow> BlackoilPropertiesInterface \<Rightarrow> real list list \<Rightarrow>
   nat list \<Rightarrow> nat \<Rightarrow> real list list \<Rightarrow> real list list" where
  "cells_loop h reg props phase_pressures [] local_index phase_saturations = phase_saturations"
| "cells_loop h reg props phase_pressures (cell # cells) local_index phase_saturations =
     cells_loop h reg props phase_pressures cells (Suc local_index)
       (cell_saturations h reg props phase_pressures cell local_index phase_saturations)"

definition phaseSaturations ::
  "EquilibrationHelpers \<Rightarrow> EquilReg \<Rightarrow> nat list \<Rightarrow> BlackoilPropertiesInterface \<Rightarrow>
   real list list \<Rightarrow> error + real list list" where
  "phaseSaturations h reg cells props phase_pressures =
    (let z0 = datum reg; zwoc = zwoc reg; zgoc = zgoc reg in
     if zgoc > z0 \<or> z0 > zwoc then
       Inl (RuntimeError ''Cannot initialise: the datum depth must be in the oil zone.'')
     else if \<not> phase_used (phaseUsage reg) Liquid then
       Inl (RuntimeError ''Cannot initialise: not handling water-gas cases.'')
     else
       Inr (cells_loop h reg props phase_pressures cells 0 phase_pressures))"

subsection \<open>The values of the locals of the loop body\<close>

text \<open>
  The value of \<open>sw\<close> after line 161 and of \<open>sg\<close> after line 169 (the independent
  inversions), the guard of line 170, and the values of \<open>sw\<close> and \<open>sg\<close> at line 181.
\<close>

definition sw_inverted ::
  "EquilibrationHelpers \<Rightarrow> EquilReg \<Rightarrow> BlackoilPropertiesInterface \<Rightarrow> real list list \<Rightarrow>
   nat \<Rightarrow> nat \<Rightarrow> real" where
  "sw_inverted h reg props phase_pressures cell local_index =
    (if phase_used (phaseUsage reg) Aqua then
       satFromPc h props (phase_pos (phaseUsage reg) Aqua) cell
         (phase_pressures ! phase_pos (phaseUsage reg) Liquid ! local_index
          - phase_pressures ! phase_pos (phaseUsage reg) Aqua ! local_index)
         satFromPc_default_increasing
     else 0)"

definition sg_inverted ::
  "EquilibrationHelpers \<Rightarrow> EquilReg \<Rightarrow> BlackoilPropertiesInterface \<Rightarrow> real list list \<Rightarrow>
   nat \<Rightarrow> nat \<Rightarrow> real" where
  "sg_inverted h reg props phase_pressures cell local_index =
    (if phase_used (phaseUsage reg) Vapour then
       satFromPc h props (phase_pos (phaseUsage reg) Vapour) cell
         (phase_pressures ! phase_pos (phaseUsage reg) Vapour ! local_index
          - phase_pressures ! phase_pos (phaseUsage reg) Liquid ! local_index)
         True
     else 0)"

definition overlap ::
  "EquilibrationHelpers \<Rightarrow> EquilReg \<Rightarrow> BlackoilPropertiesInterface \<Rightarrow> real list list \<Rightarrow>
   nat \<Rightarrow> nat \<Rightarrow> bool" where
  "overlap h reg props phase_pressures cell local_index \<longleftrightarrow>
     phase_used (phaseUsage reg) Vapour \<and> phase_used (phaseUsage reg) Aqua \<and>
     sg_inverted h reg props phase_pressures cell local_index
       + sw_inverted h reg props phase_pressures cell local_index > 1"

definition sw_final ::
  "EquilibrationHelpers \<Rightarrow> EquilReg \<Rightarrow> BlackoilPropertiesInterface \<Rightarrow> real list list \<Rightarrow>
   nat \<Rightarrow> nat \<Rightarrow> real" where
  "sw_final h reg props phase_pressures cell local_index =
    (if overlap h reg props phase_pressures cell local_index then
       satFromSumOfPcs h props (phase_pos (phaseUsage reg) Aqua)
         (phase_pos (phaseUsage reg) Vapour) cell
         (phase_pressures ! phase_pos (phaseUsage reg) Vapour ! local_index
          - phase_pressures ! phase_pos (phaseUsage reg) Aqua ! local_index)
     else sw_inverted h reg props phase_pressures cell local_index)"

definition sg_final ::
  "EquilibrationHelpers \<Rightarrow> EquilReg \<Rightarrow> BlackoilPropertiesInterface \<Rightarrow> real list list \<Rightarrow>
   nat \<Rightarrow> nat \<Rightarrow> real" where
  "sg_final h reg props phase_pressures cell local_index =
    (if overlap h reg props phase_pressures cell local_index then
       1 - sw_final h reg props phase_pressures cell local_index
     else sg_inverted h reg props phase_pressures cell local_index)"

text \<open>
  The shape under which the loop body is defined for the local indices below \<open>n\<close>:
  the positions of the active phases are distinct positions of the outer vector, and
  each of these inner vectors has at least \<open>n\<close> entries.
\<close>

definition well_shaped :: "EquilReg \<Rightarrow> real list list \<Rightarrow> nat \<Rightarrow> bool" where
  "well_shaped reg a n \<longleftrightarrow>
    (let water = phase_used (phaseUsage reg) Aqua;
         gas = phase_used (phaseUsage reg) Vapour;
         oilpos = phase_pos (phaseUsage reg) Liquid;
         waterpos = phase_pos (phaseUsage reg) Aqua;
         gaspos = phase_pos (phaseUsage reg) Vapour
     in oilpos < length a \<and> n \<le> length (a ! oilpos) \<and>
        (water \<longrightarrow> waterpos < length a \<and> n \<le> length (a ! waterpos) \<and> waterpos \<noteq> oilpos) \<and>
        (gas \<longrightarrow> gaspos < length a \<and> n \<le> length (a ! gaspos) \<and> gaspos \<noteq> oilpos) \<and>
        (water \<and> gas \<longrightarrow> waterpos \<noteq> gaspos))"

text \<open>
  Modelled from the spec: the contract of \<open>satFromPc\<close> and \<open>satFromSumOfPcs\<close>
  (EquilibrationHelpers.hpp). Section 4.2: the inverter returns \<open>s\<close> with
  \<open>pc(s) = target_pc\<close>, clamped to the bounds \<open>[s_min, s_max]\<close> returned by the
  property model for that cell; the second entry point solves for \<open>s_w\<close>.
\<close>

definition inverter_clamped ::
  "EquilibrationHelpers \<Rightarrow> EquilReg \<Rightarrow> BlackoilPropertiesInterface \<Rightarrow> nat \<Rightarrow> bool" where
  "inverter_clamped h reg props cell \<longleftrightarrow>
    (let water = phase_used (phaseUsage reg) Aqua;
         gas = phase_used (phaseUsage reg) Vapour;
         waterpos = phase_pos (phaseUsage reg) Aqua;
         gaspos = phase_pos (phaseUsage reg) Vapour;
         smin = fst (satRange props cell);
         smax = snd (satRange props cell)
     in (water \<longrightarrow> (\<forall>target_pc increasing.
            smin ! waterpos \<le> satFromPc h props waterpos cell target_pc increasing \<and>
            satFromPc h props waterpos cell target_pc increasing \<le> smax ! waterpos)) \<and>
        (gas \<longrightarrow> (\<forall>target_pc increasing.
            smin ! gaspos \<le> satFromPc h props gaspos cell target_pc increasing \<and>
            satFromPc h props gaspos cell target_pc increasing \<le> smax ! gaspos)) \<and>
        (water \<and> gas \<longrightarrow> (\<forall>target_pc.
            smin ! waterpos \<le> satFromSumOfPcs h props waterpos gaspos cell target_pc \<and>
            satFromSumOfPcs h props waterpos gaspos cell target_pc \<le> smax ! waterpos)))"

subsection \<open>The input deck and the grid\<close>

text \<open>
  Modelled from the spec: \<open>EclipseGridParser\<close>
  (opm/core/io/eclipse/EclipseGridParser.hpp) with the three queries this header makes,
  and the lines of its \<open>EQUIL\<close> keyword. Section 6: one equilibration record per
  region, and an optional whole-grid integer array mapping cell to region id.
\<close>

record EquilLine =
  datum_depth :: real
  datum_depth_pressure :: real
  water_oil_contact_depth :: real
  oil_water_cap_pressure :: real
  gas_oil_contact_depth :: real
  gas_oil_cap_pressure :: real

record EclipseGridParser =
  hasField :: "string \<Rightarrow> bool"
  getIntegerValue :: "string \<Rightarrow> int list"
  getEQUIL :: "EquilLine list"

text \<open>
  Modelled from the spec: \<open>UnstructuredGrid\<close> (only forward-declared in this header),
  with its number of cells; the geometry is in the extension of the record.
\<close>

record UnstructuredGrid =
  number_of_cells :: nat

subsection \<open>getEquil and equilnum\<close>

definition getEquil :: "EclipseGridParser \<Rightarrow> error + EquilRecord list" where
  "getEquil deck =
    (if hasField deck ''EQUIL'' then
       Inr (map (\<lambda>rec. \<lparr> main_depth = datum_depth rec,
                          main_press = datum_depth_pressure rec,
                          woc_depth = water_oil_contact_depth rec,
                          woc_press = oil_water_cap_pressure rec,
                          goc_depth = gas_oil_contact_depth rec,
                          goc_press = gas_oil_cap_pressure rec \<rparr>)
              (getEQUIL deck))
     else Inl (DomainError ''Deck does not provide equilibration data.''))"

definition equilnum :: "EclipseGridParser \<Rightarrow> 'g UnstructuredGrid_scheme \<Rightarrow> int list" where
  "equilnum deck G =
    (if hasField deck ''EQLNUM'' then getIntegerValue deck ''EQLNUM''
     else replicate (number_of_cells G) 0)"

subsection \<open>PhasePressureSaturationComputer\<close>

text \<open>
  The members \<open>pp_\<close> and \<open>sat_\<close>, read through \<open>press()\<close> and \<open>saturation()\<close>.
\<close>

record PhasePressureSaturationComputer =
  press :: "real list list"
  saturation :: "real list list"

text \<open>
  The innermost loop of the scatter: \<open>d[*c] = *s\<close> for \<open>c\<close> through the cells,
  the iterator \<open>s\<close> being the vector \<open>src\<close> and the position \<open>k\<close> in it.
\<close>

fun scatter :: "nat list \<Rightarrow> real list \<Rightarrow> nat \<Rightarrow> real list \<Rightarrow> real list" where
  "scatter [] src k d = d"
| "scatter (c # cells) src k d = scatter cells src (Suc k) (d[c := src ! k])"

text \<open>The loop \<open>for (int p = 0, np = props.numPhases(); p < np; ++p)\<close> around it.\<close>

definition scatter_phases ::
  "nat \<Rightarrow> nat list \<Rightarrow> real list list \<Rightarrow> real list list \<Rightarrow> real list list" where
  "scatter_phases np cells res a =
     fold (\<lambda>p a. a[p := scatter cells (res ! p) 0 (a ! p)]) [0..<np] a"

text \<open>
  The region object built in both loops: \<open>EqReg eqreg(rec[r], calc, ..., props.phaseUsage())\<close>
  with \<open>calc(props, repcell)\<close> and \<open>repcell = *cells.begin()\<close>. Dereferencing the
  begin of an empty range, and \<open>rec[r]\<close> beyond the records, are undefined in the
  source; the theorems on the computer assume regions that are not empty and a record
  for each.
\<close>

definition eqreg_of ::
  "EquilRecord list \<Rightarrow> BlackoilPropertiesInterface \<Rightarrow> nat list list \<Rightarrow> nat \<Rightarrow> EquilReg" where
  "eqreg_of rec props reg r =
    (let cells = reg ! r; repcell = hd cells
     in \<lparr> reg_rec = rec ! r, reg_repcell = repcell, reg_pu = props_phaseUsage props \<rparr>)"

text \<open>
  \<open>phasePressures\<close> is declared in this header and defined elsewhere
  (initStateEquil\_impl.hpp): it is a parameter, \<open>phasePressures G reg cells grav\<close>. The
  region mapping \<open>reg\<close> is the list of the cell ranges \<open>reg.cells(r)\<close>, for \<open>r\<close>
  from 0 to \<open>reg.numRegions() - 1\<close>.
\<close>

definition calcPressII ::
  "('g UnstructuredGrid_scheme \<Rightarrow> EquilReg \<Rightarrow> nat list \<Rightarrow> real \<Rightarrow> real list list) \<Rightarrow>
   nat list list \<Rightarrow> EquilRecord list \<Rightarrow> BlackoilPropertiesInterface \<Rightarrow>
   'g UnstructuredGrid_scheme \<Rightarrow> real \<Rightarrow>
   PhasePressureSaturationComputer \<Rightarrow> PhasePressureSaturationComputer" where
  "calcPressII phasePressures reg rec props G grav this =
     fold (\<lambda>r this.
        let cells = reg ! r;
            eqreg = eqreg_of rec props reg r;
            res = phasePressures G eqreg cells grav
        in this\<lparr> press := scatter_phases (numPhases props) cells res (press this) \<rparr>)
       [0..<length reg] this"

fun calcSat_loop ::
  "EquilibrationHelpers \<Rightarrow>
   ('g UnstructuredGrid_scheme \<Rightarrow> EquilReg \<Rightarrow> nat list \<Rightarrow> real \<Rightarrow> real list list) \<Rightarrow>
   nat list list \<Rightarrow> EquilRecord list \<Rightarrow> BlackoilPropertiesInterface \<Rightarrow>
   'g UnstructuredGrid_scheme \<Rightarrow> real \<Rightarrow> nat list \<Rightarrow>
   PhasePressureSaturationComputer \<Rightarrow> error + PhasePressureSaturationComputer" where
  "calcSat_loop h phasePressures reg rec props G grav [] this = Inr this"
| "calcSat_loop h phasePressures reg rec props G grav (r # rs) this =
    (let cells = reg ! r;
         eqreg = eqreg_of rec props reg r;
         press_r = phasePressures G eqreg cells grav
     in case phaseSaturations h eqreg cells props press_r of
          Inl e \<Rightarrow> Inl e
        | Inr sat \<Rightarrow>
            calcSat_loop h phasePressures reg rec props G grav rs
              (this\<lparr> press := scatter_phases (numPhases props) cells press_r (press this),
                     saturation := scatter_phases (numPhases props) cells sat (saturation this) \<rparr>))"

definition calcSat ::
  "EquilibrationHelpers \<Rightarrow>
   ('g UnstructuredGrid_scheme \<Rightarrow> EquilReg \<Rightarrow> nat list \<Rightarrow> real \<Rightarrow> real list list) \<Rightarrow>
   nat list list \<Rightarrow> EquilRecord list \<Rightarrow> BlackoilPropertiesInterface \<Rightarrow>
   'g UnstructuredGrid_scheme \<Rightarrow> real \<Rightarrow>
   PhasePressureSaturationComputer \<Rightarrow> error + PhasePressureSaturationComputer" where
  "calcSat h phasePressures reg rec props G grav this =
     calcSat_loop h phasePressures reg rec props G grav [0..<length reg] this"

text \<open>
  The constructor. \<open>RegionMapping\<close> (opm/core/utility/RegionMapping.hpp) is a
  parameter: it turns the region number of each cell into the cell ranges of the
  regions.
\<close>

definition PhasePressureSaturationComputer_init ::
  "EquilibrationHelpers \<Rightarrow>
   ('g UnstructuredGrid_scheme \<Rightarrow> EquilReg \<Rightarrow> nat list \<Rightarrow> real \<Rightarrow> real list list) \<Rightarrow>
   (int list \<Rightarrow> nat list list) \<Rightarrow>
   BlackoilPropertiesInterface \<Rightarrow> EclipseGridParser \<Rightarrow> 'g UnstructuredGrid_scheme \<Rightarrow> real \<Rightarrow>
   error + PhasePressureSaturationComputer" where
  "PhasePressureSaturationComputer_init h phasePressures RegionMapping props deck G grav =
    (let this = \<lparr> press = replicate (numPhases props) (replicate (number_of_cells G) 0),
                   saturation = replicate (numPhases props) (replicate (number_of_cells G) 0) \<rparr>
     in case getEquil deck of
          Inl e \<Rightarrow> Inl e
        | Inr rec \<Rightarrow>
            let eqlmap = RegionMapping (equilnum deck G);
                this = calcPressII phasePressures eqlmap rec props G grav this
            in calcSat h phasePressures eqlmap rec props G grav this)"

text \<open>
  The cell ranges partition the cells \<open>0, ..., n - 1\<close>: every range is a duplicate-free,
  non-empty list of cells, two ranges share no cell, and every cell is in a range.
\<close>

definition region_partition :: "nat list list \<Rightarrow> nat \<Rightarrow> bool" where
  "region_partition reg n \<longleftrightarrow>
     (\<forall>r < length reg. reg ! r \<noteq> [] \<and> distinct (reg ! r) \<and> (\<forall>c \<in> set (reg ! r). c < n)) \<and>
     (\<forall>r < length reg. \<forall>r' < length reg. r \<noteq> r' \<longrightarrow> set (reg ! r) \<inter> set (reg ! r') = {}) \<and>
     (\<forall>c < n. \<exists>r < length reg. c \<in> set (reg ! r))"

text \<open>
  The shape of the results of \<open>phasePressures\<close>: one vector for each active phase, of
  one pressure for each cell of the region (its documentation in this header); and a
  record for every region.
\<close>

definition pressures_shaped ::
  "('g UnstructuredGrid_scheme \<Rightarrow> EquilReg \<Rightarrow> nat list \<Rightarrow> real \<Rightarrow> real list list) \<Rightarrow>
   nat list list \<Rightarrow> EquilRecord list \<Rightarrow> BlackoilPropertiesInterface \<Rightarrow>
   'g UnstructuredGrid_scheme \<Rightarrow> real \<Rightarrow> bool" where
  "pressures_shaped phasePressures reg rec props G grav \<longleftrightarrow>
     length reg \<le> length rec \<and>
     (\<forall>r < length reg.
        let res = phasePressures G (eqreg_of rec props reg r) (reg ! r) grav
        in length res = numPhases props \<and> (\<forall>p < numPhases props. length (res ! p) = length (reg ! r)))"

section \<open>The velocity formulation of FVVelocity2P (dumux/new\_decoupled/2p/diffusion/fv/fvvelocity2p.hh)\<close>

text \<open>
  \<open>TwoPCommonIndices\<close> is declared elsewhere: its velocity, pressure and saturation
  indices are parameters (the comment on \<open>velocityType_\<close> gives 0, 1 and 2 for the
  velocities). The properties \<open>EnableCompressibility\<close> and \<open>VelocityFormulation\<close> of
  the type tag are compile-time constants; \<open>velocityType_\<close> is a \<open>static const int\<close>.
\<close>

record TwoPCommonIndices =
  velocityW :: int
  velocityNW :: int
  velocityTotal :: int
  pressureW :: int
  pressureNW :: int
  pressureGlobal :: int
  saturationW :: int
  saturationNW :: int

record TypeTag =
  EnableCompressibility :: bool
  VelocityFormulation :: int

definition other :: int where
  "other = 999"

text \<open>
  Both constructors run the constructor of the base class \<open>FVPressure2P\<close> first, which
  is defined elsewhere: its outcome \<open>base\<close> is a parameter. Then come the two checks.
\<close>

definition FVVelocity2P :: "TwoPCommonIndices \<Rightarrow> TypeTag \<Rightarrow> error + 'a \<Rightarrow> error + 'a" where
  "FVVelocity2P idx tag base =
    (case base of
       Inl e \<Rightarrow> Inl e
     | Inr this \<Rightarrow>
         let velocityType = VelocityFormulation tag; vt = velocityTotal idx in
         if EnableCompressibility tag \<and> velocityType = vt then
           Inl (NotImplemented
             ''Total velocity - global pressure - model cannot be used with compressible fluids!'')
         else if velocityType = other then
           Inl (NotImplemented ''Velocity type not supported!'')
         else Inr this)"

text \<open>
  After construction \<open>velocityType_\<close> is read in \<open>calculateVelocity\<close> only, in the three
  blocks \<open>//store velocities\<close>: of an interior face (lines 343 to 359), of a boundary
  face with a Dirichlet pressure condition (lines 535 to 551) and of the other boundary
  faces (lines 569 to 582). The model is that of one intersection \<open>isIt\<close> of one
  element, on the two entries \<open>velocity()[globalIdxI][isIndex]\<close> and
  \<open>velocitySecondPhase()[globalIdxI][isIndex]\<close>. A \<open>FieldVector\<close> is a list of reals,
  added componentwise. What the vectors \<open>velocityW\<close> and \<open>velocityNW\<close> hold when a block
  is reached, and what the branch \<open>pressureType == pglobal\<close> writes, is computed from
  pressures, mobilities, densities and permeabilities: these vectors are parameters.
\<close>

text \<open>
  Lines 334 to 359, and again lines 526 to 551: the branch \<open>pressureType == pglobal\<close>
  writes \<open>velocityG\<close> into \<open>velocity()\<close>, whatever the formulation is; then come the
  three tests of \<open>velocityType_\<close>.
\<close>

definition phase_velocities_stored ::
  "TwoPCommonIndices \<Rightarrow> int \<Rightarrow> int \<Rightarrow> real list \<Rightarrow> real list \<Rightarrow> real list \<Rightarrow>
   real list \<times> real list \<Rightarrow> real list \<times> real list" where
  "phase_velocities_stored idx velocityType pressureType velocityW' velocityNW' velocityG vel =
    (let vw = velocityW idx; vn = velocityNW idx; vt = velocityTotal idx;
         pw = pressureW idx; pn = pressureNW idx; pglobal = pressureGlobal idx;
         vel = (if pressureType = pglobal then (velocityG, snd vel) else vel);
         vel = (if velocityType = vw then (velocityW', velocityNW') else vel);
         vel = (if velocityType = vn then (velocityNW', velocityW') else vel);
         vel = (if velocityType = vt then
                  (if pressureType = pw \<or> pressureType = pn
                   then (map2 (+) velocityW' velocityNW', snd vel) else vel)
                else vel)
     in vel)"

text \<open>Lines 569 to 582: the total velocity is stored without a test of the pressure type.\<close>

definition neumann_velocities_stored ::
  "TwoPCommonIndices \<Rightarrow> int \<Rightarrow> real list \<Rightarrow> real list \<Rightarrow>
   real list \<times> real list \<Rightarrow> real list \<times> real list" where
  "neumann_velocities_stored idx velocityType velocityW' velocityNW' vel =
    (let vw = velocityW idx; vn = velocityNW idx; vt = velocityTotal idx;
         vel = (if velocityType = vw then (velocityW', velocityNW') else vel);
         vel = (if velocityType = vn then (velocityNW', velocityW') else vel);
         vel = (if velocityType = vt then (map2 (+) velocityW' velocityNW', snd vel) else vel)
     in vel)"

text \<open>
  The body of the loop over the intersections, lines 208 to 584: \<open>if (isIt->neighbor())\<close>,
  then \<open>if (isIt->boundary())\<close> with its two cases. The only \<open>DUNE_THROW\<close> of
  \<open>calculateVelocity\<close> is that of line 415, on the saturation type.
\<close>

record Intersection =
  neighbor :: bool
  boundary :: bool
  bcTypePress_dirichlet :: bool

definition face_velocities ::
  "TwoPCommonIndices \<Rightarrow> int \<Rightarrow> int \<Rightarrow> int \<Rightarrow> Intersection \<Rightarrow>
   real list \<times> real list \<times> real list \<Rightarrow> real list \<times> real list \<times> real list \<Rightarrow>
   real list \<times> real list \<Rightarrow>
   real list \<times> real list \<Rightarrow> error + real list \<times> real list" where
  "face_velocities idx velocityType pressureType saturationType isIt inner dirichlet neumann vel =
    (let Sw = saturationW idx; Sn = saturationNW idx;
         vel = (if neighbor isIt then
                  (case inner of (velocityW', velocityNW', velocityG) \<Rightarrow>
                     phase_velocities_stored idx velocityType pressureType
                       velocityW' velocityNW' velocityG vel)
                else vel)
     in if boundary isIt then
          (if bcTypePress_dirichlet isIt then
             (case dirichlet of (velocityW', velocityNW', velocityG) \<Rightarrow>
                if saturationType = Sw then
                  Inr (phase_velocities_stored idx velocityType pressureType
                         velocityW' velocityNW' velocityG vel)
                else if saturationType = Sn then
                  Inr (phase_velocities_stored idx velocityType pressureType
                         velocityW' velocityNW' velocityG vel)
                else Inl (RangeError ''saturation type not implemented''))
           else
             (case neumann of (velocityW', velocityNW') \<Rightarrow>
                Inr (neumann_velocities_stored idx velocityType velocityW' velocityNW' vel)))
        else Inr vel)"

section \<open>Test data\<close>

text \<open>
  Inputs on which the theorems below are evaluated. The inverters of
  \<open>linear_helpers\<close> are those of the linear curves \<open>pc_ow(s) = 1/2 - s\<close> and
  \<open>pc_go(s) = s - 1/2\<close>, whose sum at \<open>s_gas = 1 - s_water\<close> is \<open>1 - 2 s_water\<close>;
  the result is clamped to the saturation range of the inverted phase.
\<close>

definition clamp :: "real \<Rightarrow> real \<Rightarrow> real \<Rightarrow> real" where
  "clamp lo hi x = max lo (min hi x)"

definition linear_helpers :: EquilibrationHelpers where
  "linear_helpers =
    \<lparr> satFromPc = (\<lambda>props phase cell target_pc increasing.
         clamp (fst (satRange props cell) ! phase) (snd (satRange props cell) ! phase)
           (if increasing then 1 / 2 + target_pc else 1 / 2 - target_pc)),
      satFromSumOfPcs = (\<lambda>props phase1 phase2 cell target_pc.
         clamp (fst (satRange props cell) ! phase1) (snd (satRange props cell) ! phase1)
           ((1 - target_pc) / 2)) \<rparr>"

definition pu_three :: PhaseUsage where
  "pu_three = \<lparr> phase_used = (\<lambda>p. True),
                 phase_pos = (\<lambda>p. case p of Aqua \<Rightarrow> 0 | Liquid \<Rightarrow> 1 | Vapour \<Rightarrow> 2) \<rparr>"

definition pu_water_oil :: PhaseUsage where
  "pu_water_oil = \<lparr> phase_used = (\<lambda>p. p \<noteq> Vapour),
                     phase_pos = (\<lambda>p. case p of Aqua \<Rightarrow> 0 | Liquid \<Rightarrow> 1 | Vapour \<Rightarrow> 2000000) \<rparr>"

definition pu_oil :: PhaseUsage where
  "pu_oil = \<lparr> phase_used = (\<lambda>p. p = Liquid),
               phase_pos = (\<lambda>p. case p of Aqua \<Rightarrow> 2000000 | Liquid \<Rightarrow> 0 | Vapour \<Rightarrow> 2000000) \<rparr>"

definition rec_oil_zone :: EquilRecord where
  "rec_oil_zone = \<lparr> main_depth = 2000, main_press = 200, woc_depth = 2200, woc_press = 0,
                     goc_depth = 1800, goc_press = 0 \<rparr>"

definition rec_datum_in_water :: EquilRecord where
  "rec_datum_in_water = \<lparr> main_depth = 2300, main_press = 200, woc_depth = 2200, woc_press = 0,
                     goc_depth = 1800, goc_press = 0 \<rparr>"

definition region_of :: "EquilRecord \<Rightarrow> PhaseUsage \<Rightarrow> EquilReg" where
  "region_of r pu = \<lparr> reg_rec = r, reg_repcell = 0, reg_pu = pu \<rparr>"

definition props_three :: BlackoilPropertiesInterface where
  "props_three = \<lparr> numPhases = 3, props_phaseUsage = pu_three,
                    satRange = (\<lambda>cell. ([1 / 5, 1 / 10, 0], [1, 4 / 5, 3 / 5])) \<rparr>"

definition pu_water_gas :: PhaseUsage where
  "pu_water_gas = \<lparr> phase_used = (\<lambda>p. p \<noteq> Liquid),
                     phase_pos = (\<lambda>p. case p of Aqua \<Rightarrow> 0 | Liquid \<Rightarrow> 2000000 | Vapour \<Rightarrow> 1) \<rparr>"

definition props_water_oil :: BlackoilPropertiesInterface where
  "props_water_oil = \<lparr> numPhases = 2, props_phaseUsage = pu_water_oil,
                   satRange = (\<lambda>cell. ([1 / 5, 0], [1, 4 / 5])) \<rparr>"

definition equil_line :: EquilLine where
  "equil_line = \<lparr> datum_depth = 2000, datum_depth_pressure = 200,
                   water_oil_contact_depth = 2200, oil_water_cap_pressure = 0,
                   gas_oil_contact_depth = 1800, gas_oil_cap_pressure = 0 \<rparr>"

definition equil_line_deep :: EquilLine where
  "equil_line_deep = \<lparr> datum_depth = 2500, datum_depth_pressure = 250,
                        water_oil_contact_depth = 2700, oil_water_cap_pressure = 0,
                        gas_oil_contact_depth = 2300, gas_oil_cap_pressure = 0 \<rparr>"

definition deck_one_region :: EclipseGridParser where
  "deck_one_region = \<lparr> hasField = (\<lambda>k. k = ''EQUIL''),
                        getIntegerValue = (\<lambda>k. []),
                        getEQUIL = [equil_line] \<rparr>"

definition deck_two_regions :: EclipseGridParser where
  "deck_two_regions = \<lparr> hasField = (\<lambda>k. k = ''EQUIL'' \<or> k = ''EQLNUM''),
                         getIntegerValue = (\<lambda>k. if k = ''EQLNUM'' then [0, 1, 0, 1] else []),
                         getEQUIL = [equil_line, equil_line_deep] \<rparr>"

definition grid_four :: UnstructuredGrid where
  "grid_four = \<lparr> number_of_cells = 4 \<rparr>"

definition indices :: TwoPCommonIndices where
  "indices = \<lparr> velocityW = 0, velocityNW = 1, velocityTotal = 2,
                pressureW = 0, pressureNW = 1, pressureGlobal = 2,
                saturationW = 0, saturationNW = 1 \<rparr>"

definition rec_deep :: EquilRecord where
  "rec_deep = \<lparr> main_depth = 2500, main_press = 250, woc_depth = 2700, woc_press = 0,
                 goc_depth = 2300, goc_press = 0 \<rparr>"

text \<open>
  A region mapping: region \<open>r\<close> holds the cells whose region number is \<open>r\<close>, in
  increasing order. Phase pressures that are linear in the cell number, above the
  datum pressure of the region.
\<close>

definition region_cells :: "int list \<Rightarrow> nat list list" where
  "region_cells eqlnum =
     map (\<lambda>r. filter (\<lambda>c. eqlnum ! c = int r) [0..<length eqlnum])
       [0..<Suc (nat (fold max eqlnum 0))]"

definition linear_pressures ::
  "'g UnstructuredGrid_scheme \<Rightarrow> EquilReg \<Rightarrow> nat list \<Rightarrow> real \<Rightarrow> real list list" where
  "linear_pressures G reg cells grav =
     [map (\<lambda>c. main_press (reg_rec reg) + real c / 10) cells,
      map (\<lambda>c. main_press (reg_rec reg) + 3 / 10) cells,
      map (\<lambda>c. main_press (reg_rec reg) + (5 - real c) / 10) cells]"

section \<open>Properties of phaseSaturations\<close>

subsection \<open>Writes into the vector of vectors\<close>

lemma length_assign2: "length (assign2 a p i v) = length a"
  by (simp add: assign2_def)

lemma length_nth_assign2: "length (assign2 a p i v ! q) = length (a ! q)"
  by (cases "p < length a"; cases "q = p") (simp_all add: assign2_def list_update_beyond)

lemma nth_assign2:
  "assign2 a p i v ! q ! j =
     (if q = p \<and> j = i \<and> p < length a \<and> i < length (a ! p) then v else a ! q ! j)"
  by (cases "p < length a"; cases "q = p"; cases "j = i"; cases "i < length (a ! p)")
    (simp_all add: assign2_def list_update_beyond)

lemma cell_saturations_closed:
  "cell_saturations h reg props pp cell li ps =
    (let water = phase_used (phaseUsage reg) Aqua;
         gas = phase_used (phaseUsage reg) Vapour;
         oilpos = phase_pos (phaseUsage reg) Liquid;
         waterpos = phase_pos (phaseUsage reg) Aqua;
         gaspos = phase_pos (phaseUsage reg) Vapour;
         ps1 = (if water then assign2 ps waterpos li (sw_inverted h reg props pp cell li) else ps);
         ps2 = (if gas then assign2 ps1 gaspos li (sg_inverted h reg props pp cell li) else ps1);
         ps3 = (if overlap h reg props pp cell li
                then assign2 (assign2 ps2 waterpos li (sw_final h reg props pp cell li))
                       gaspos li (sg_final h reg props pp cell li)
                else ps2)
     in assign2 ps3 oilpos li
          (1 - sw_final h reg props pp cell li - sg_final h reg props pp cell li))"
  by (simp add: cell_saturations_def Let_def sw_inverted_def sg_inverted_def overlap_def
        sw_final_def sg_final_def split: prod.splits)


lemma length_cell_saturations:
  "length (cell_saturations h reg props pp cell li ps) = length ps"
  by (simp add: cell_saturations_closed Let_def length_assign2)

lemma length_nth_cell_saturations:
  "length (cell_saturations h reg props pp cell li ps ! q) = length (ps ! q)"
  by (simp add: cell_saturations_closed Let_def length_nth_assign2)

lemma cell_saturations_other:
  "j \<noteq> li \<Longrightarrow> cell_saturations h reg props pp cell li ps ! q ! j = ps ! q ! j"
  by (simp add: cell_saturations_closed Let_def nth_assign2)

lemma well_shaped_cell_saturations:
  "well_shaped reg (cell_saturations h reg props pp cell li ps) n = well_shaped reg ps n"
  by (simp add: well_shaped_def length_cell_saturations length_nth_cell_saturations)

lemma well_shaped_mono: "well_shaped reg a n \<Longrightarrow> m \<le> n \<Longrightarrow> well_shaped reg a m"
  by (auto simp: well_shaped_def Let_def)

lemma cell_saturations_oil:
  assumes "well_shaped reg ps (Suc li)"
  shows "cell_saturations h reg props pp cell li ps ! phase_pos (phaseUsage reg) Liquid ! li
         = 1 - sw_final h reg props pp cell li - sg_final h reg props pp cell li"
  using assms
  by (simp add: cell_saturations_closed Let_def nth_assign2 length_assign2 length_nth_assign2
        well_shaped_def)

lemma cell_saturations_water:
  assumes "well_shaped reg ps (Suc li)" and "phase_used (phaseUsage reg) Aqua"
  shows "cell_saturations h reg props pp cell li ps ! phase_pos (phaseUsage reg) Aqua ! li
         = sw_final h reg props pp cell li"
  using assms
  by (simp add: cell_saturations_closed Let_def nth_assign2 length_assign2 length_nth_assign2
        well_shaped_def sw_final_def overlap_def)

lemma cell_saturations_gas:
  assumes "well_shaped reg ps (Suc li)" and "phase_used (phaseUsage reg) Vapour"
  shows "cell_saturations h reg props pp cell li ps ! phase_pos (phaseUsage reg) Vapour ! li
         = sg_final h reg props pp cell li"
  using assms
  by (simp add: cell_saturations_closed Let_def nth_assign2 length_assign2 length_nth_assign2
        well_shaped_def sg_final_def overlap_def)

lemma length_cells_loop:
  "length (cells_loop h reg props pp cells k ps) = length ps"
  by (induction cells arbitrary: k ps) (simp_all add: length_cell_saturations)

lemma length_nth_cells_loop:
  "length (cells_loop h reg props pp cells k ps ! q) = length (ps ! q)"
  by (induction cells arbitrary: k ps) (simp_all add: length_nth_cell_saturations)

lemma cells_loop_before:
  "j < k \<Longrightarrow> cells_loop h reg props pp cells k ps ! q ! j = ps ! q ! j"
  by (induction cells arbitrary: k ps) (simp_all add: cell_saturations_other)

lemma cells_loop_at:
  assumes "well_shaped reg ps (k + length cells)" and "i < length cells"
  shows "cells_loop h reg props pp cells k ps ! phase_pos (phaseUsage reg) Liquid ! (k + i)
           = 1 - sw_final h reg props pp (cells ! i) (k + i)
               - sg_final h reg props pp (cells ! i) (k + i) \<and>
         (phase_used (phaseUsage reg) Aqua \<longrightarrow>
          cells_loop h reg props pp cells k ps ! phase_pos (phaseUsage reg) Aqua ! (k + i)
           = sw_final h reg props pp (cells ! i) (k + i)) \<and>
         (phase_used (phaseUsage reg) Vapour \<longrightarrow>
          cells_loop h reg props pp cells k ps ! phase_pos (phaseUsage reg) Vapour ! (k + i)
           = sg_final h reg props pp (cells ! i) (k + i))"
  using assms
proof (induction cells arbitrary: k ps i)
  case Nil
  then show ?case by simp
next
  case (Cons c cs)
  show ?case
  proof (cases i)
    case 0
    from Cons.prems have "well_shaped reg ps (Suc k)" by (auto intro: well_shaped_mono)
    then show ?thesis using 0
      by (simp add: cells_loop_before cell_saturations_oil cell_saturations_water
            cell_saturations_gas)
  next
    case (Suc i')
    from Cons.prems
    have ws: "well_shaped reg (cell_saturations h reg props pp c k ps) (Suc k + length cs)"
      by (simp add: well_shaped_cell_saturations)
    from Cons.prems Suc have "i' < length cs" by simp
    from Cons.IH[OF ws this] show ?thesis using Suc by simp
  qed
qed

subsection \<open>Evaluation on the test data\<close>

lemmas ex_defs = clamp_def linear_helpers_def pu_three_def rec_oil_zone_def region_of_def
  props_three_def datum_def zwoc_def zgoc_def phaseUsage_def

lemmas sat_defs = phaseSaturations_def cell_saturations_def assign2_def
  satFromPc_default_increasing_def Let_def

lemma ev_three: "phaseSaturations linear_helpers (region_of rec_oil_zone pu_three) [0, 1] props_three
     [[0, 0], [0, 1 / 10], [2 / 5, 0]] = Inr [[3 / 10, 2 / 5], [0, 1 / 5], [7 / 10, 2 / 5]]"
  by (simp add: ex_defs sat_defs)

lemma hyps_three:
  "zgoc (region_of rec_oil_zone pu_three) \<le> datum (region_of rec_oil_zone pu_three)"
  "datum (region_of rec_oil_zone pu_three) \<le> zwoc (region_of rec_oil_zone pu_three)"
  "phase_used (phaseUsage (region_of rec_oil_zone pu_three)) Liquid"
  "well_shaped (region_of rec_oil_zone pu_three) [[0, 0], [0, 1 / 10], [2 / 5, 0]] (length [0::nat, 1])"
  "phase_used (phaseUsage (region_of rec_oil_zone pu_three)) Aqua"
  "phase_used (phaseUsage (region_of rec_oil_zone pu_three)) Vapour"
  by (simp_all add: well_shaped_def ex_defs)

lemma inverter_clamped_three:
  "inverter_clamped linear_helpers (region_of rec_oil_zone pu_three) props_three c"
  by (simp add: inverter_clamped_def ex_defs)

subsection \<open>The result of phaseSaturations, cell by cell\<close>

lemma phaseSaturations_Inr:
  assumes "zgoc reg \<le> datum reg" and "datum reg \<le> zwoc reg"
      and "phase_used (phaseUsage reg) Liquid"
  shows "phaseSaturations h reg cells props pp = Inr (cells_loop h reg props pp cells 0 pp)"
  using assms by (simp add: phaseSaturations_def Let_def)

lemma phaseSaturations_entries:
  assumes "zgoc reg \<le> datum reg" and "datum reg \<le> zwoc reg"
      and "phase_used (phaseUsage reg) Liquid"
      and "well_shaped reg pp (length cells)" and "i < length cells"
  shows "\<exists>sat. phaseSaturations h reg cells props pp = Inr sat \<and>
     sat ! phase_pos (phaseUsage reg) Liquid ! i
       = 1 - sw_final h reg props pp (cells ! i) i - sg_final h reg props pp (cells ! i) i \<and>
     (phase_used (phaseUsage reg) Aqua \<longrightarrow>
        sat ! phase_pos (phaseUsage reg) Aqua ! i = sw_final h reg props pp (cells ! i) i) \<and>
     (phase_used (phaseUsage reg) Vapour \<longrightarrow>
        sat ! phase_pos (phaseUsage reg) Vapour ! i = sg_final h reg props pp (cells ! i) i)"
proof -
  from assms(4) have "well_shaped reg pp (0 + length cells)" by simp
  from cells_loop_at[OF this assms(5), of h props pp]
  show ?thesis by (simp add: phaseSaturations_Inr[OF assms(1-3)])
qed

text \<open>
  Claim C1. For a region whose preconditions pass (datum in the oil zone, oil phase
  active), \<open>phaseSaturations\<close> returns, and for every cell of the cell range the
  returned saturations sum to one: the oil saturation is \<open>1 - s_water - s_gas\<close>, where
  the saturation of a phase that is not active counts as zero.
\<close>

theorem saturations_sum_to_one:
  assumes "zgoc reg \<le> datum reg" and "datum reg \<le> zwoc reg"
      and "phase_used (phaseUsage reg) Liquid"
      and "well_shaped reg phase_pressures (length cells)"
  shows "\<exists>sat. phaseSaturations h reg cells props phase_pressures = Inr sat \<and>
     (\<forall>i<length cells.
        let s_water = (if phase_used (phaseUsage reg) Aqua
                       then sat ! phase_pos (phaseUsage reg) Aqua ! i else 0);
            s_gas = (if phase_used (phaseUsage reg) Vapour
                     then sat ! phase_pos (phaseUsage reg) Vapour ! i else 0);
            s_oil = sat ! phase_pos (phaseUsage reg) Liquid ! i
        in s_oil = 1 - s_water - s_gas \<and> s_water + s_oil + s_gas = 1)"
proof -
  let ?sat = "cells_loop h reg props phase_pressures cells 0 phase_pressures"
  have res: "phaseSaturations h reg cells props phase_pressures = Inr ?sat"
    by (rule phaseSaturations_Inr[OF assms(1-3)])
  have "\<forall>i<length cells.
        let s_water = (if phase_used (phaseUsage reg) Aqua
                       then ?sat ! phase_pos (phaseUsage reg) Aqua ! i else 0);
            s_gas = (if phase_used (phaseUsage reg) Vapour
                     then ?sat ! phase_pos (phaseUsage reg) Vapour ! i else 0);
            s_oil = ?sat ! phase_pos (phaseUsage reg) Liquid ! i
        in s_oil = 1 - s_water - s_gas \<and> s_water + s_oil + s_gas = 1"
  proof (intro allI impI)
    fix i assume i: "i < length cells"
    from phaseSaturations_entries[OF assms i, of h props] res
    have e: "?sat ! phase_pos (phaseUsage reg) Liquid ! i
          = 1 - sw_final h reg props phase_pressures (cells ! i) i
              - sg_final h reg props phase_pressures (cells ! i) i"
      "phase_used (phaseUsage reg) Aqua \<Longrightarrow>
        ?sat ! phase_pos (phaseUsage reg) Aqua ! i
          = sw_final h reg props phase_pressures (cells ! i) i"
      "phase_used (phaseUsage reg) Vapour \<Longrightarrow>
        ?sat ! phase_pos (phaseUsage reg) Vapour ! i
          = sg_final h reg props phase_pressures (cells ! i) i"
      by simp_all
    have w0: "\<not> phase_used (phaseUsage reg) Aqua \<Longrightarrow>
        sw_final h reg props phase_pressures (cells ! i) i = 0"
      by (simp add: sw_final_def overlap_def sw_inverted_def)
    have g0: "\<not> phase_used (phaseUsage reg) Vapour \<Longrightarrow>
        sg_final h reg props phase_pressures (cells ! i) i = 0"
      by (simp add: sg_final_def overlap_def sg_inverted_def)
    show "let s_water = (if phase_used (phaseUsage reg) Aqua
                       then ?sat ! phase_pos (phaseUsage reg) Aqua ! i else 0);
            s_gas = (if phase_used (phaseUsage reg) Vapour
                     then ?sat ! phase_pos (phaseUsage reg) Vapour ! i else 0);
            s_oil = ?sat ! phase_pos (phaseUsage reg) Liquid ! i
        in s_oil = 1 - s_water - s_gas \<and> s_water + s_oil + s_gas = 1"
      using e w0 g0 by (simp add: Let_def)
  qed
  with res show ?thesis by blast
qed

theorem saturations_sum_to_one_witness:
  "zgoc (region_of rec_oil_zone pu_three) \<le> datum (region_of rec_oil_zone pu_three) \<and>
   datum (region_of rec_oil_zone pu_three) \<le> zwoc (region_of rec_oil_zone pu_three) \<and>
   phase_used (phaseUsage (region_of rec_oil_zone pu_three)) Liquid \<and>
   well_shaped (region_of rec_oil_zone pu_three) [[0, 0], [0, 1 / 10], [2 / 5, 0]] (length [0::nat, 1]) \<and>
   phaseSaturations linear_helpers (region_of rec_oil_zone pu_three) [0, 1] props_three
     [[0, 0], [0, 1 / 10], [2 / 5, 0]] = Inr [[3 / 10, 2 / 5], [0, 1 / 5], [7 / 10, 2 / 5]] \<and>
   (3 / 10 + 0 + 7 / 10 = (1::real)) \<and> (2 / 5 + 1 / 5 + 2 / 5 = (1::real))"
proof -
  have h1: "zgoc (region_of rec_oil_zone pu_three) \<le> datum (region_of rec_oil_zone pu_three)"
    by (simp add: ex_defs)
  have h2: "datum (region_of rec_oil_zone pu_three) \<le> zwoc (region_of rec_oil_zone pu_three)"
    by (simp add: ex_defs)
  have h3: "phase_used (phaseUsage (region_of rec_oil_zone pu_three)) Liquid"
    by (simp add: ex_defs)
  have h4: "well_shaped (region_of rec_oil_zone pu_three) [[0, 0], [0, 1 / 10], [2 / 5, 0]] (length [0::nat, 1])"
    by (simp add: well_shaped_def ex_defs)
  from saturations_sum_to_one[OF h1 h2 h3 h4, of linear_helpers props_three]
  show ?thesis using h1 h2 h3 h4 ev_three by simp
qed


text \<open>
  Claim C4. \<open>phaseSaturations\<close> throws, with no per-cell result, when the datum depth is
  not between the gas-oil and the water-oil contact depths, and when the oil phase is not
  active; when both preconditions hold neither check fires and the result is that of the
  loop over all the cells.
\<close>

theorem phaseSaturations_preconditions:
  "(zgoc reg > datum reg \<or> datum reg > zwoc reg \<longrightarrow>
      phaseSaturations h reg cells props phase_pressures =
        Inl (RuntimeError ''Cannot initialise: the datum depth must be in the oil zone.'')) \<and>
   (\<not> phase_used (phaseUsage reg) Liquid \<longrightarrow>
      (\<exists>e. phaseSaturations h reg cells props phase_pressures = Inl e)) \<and>
   (zgoc reg \<le> datum reg \<and> datum reg \<le> zwoc reg \<and> \<not> phase_used (phaseUsage reg) Liquid \<longrightarrow>
      phaseSaturations h reg cells props phase_pressures =
        Inl (RuntimeError ''Cannot initialise: not handling water-gas cases.'')) \<and>
   (zgoc reg \<le> datum reg \<and> datum reg \<le> zwoc reg \<and> phase_used (phaseUsage reg) Liquid \<longrightarrow>
      phaseSaturations h reg cells props phase_pressures =
        Inr (cells_loop h reg props phase_pressures cells 0 phase_pressures))"
  by (simp add: phaseSaturations_def Let_def)

theorem phaseSaturations_preconditions_witness:
  "datum (region_of rec_datum_in_water pu_three) > zwoc (region_of rec_datum_in_water pu_three) \<and>
   phaseSaturations linear_helpers (region_of rec_datum_in_water pu_three) [0, 1] props_three
       [[0, 0], [0, 1 / 10], [2 / 5, 0]] =
     Inl (RuntimeError ''Cannot initialise: the datum depth must be in the oil zone.'') \<and>
   zgoc (region_of rec_oil_zone pu_water_gas) \<le> datum (region_of rec_oil_zone pu_water_gas) \<and>
   datum (region_of rec_oil_zone pu_water_gas) \<le> zwoc (region_of rec_oil_zone pu_water_gas) \<and>
   \<not> phase_used (phaseUsage (region_of rec_oil_zone pu_water_gas)) Liquid \<and>
   phaseSaturations linear_helpers (region_of rec_oil_zone pu_water_gas) [0, 1] props_three
       [[0, 0], [2 / 5, 0]] =
     Inl (RuntimeError ''Cannot initialise: not handling water-gas cases.'') \<and>
   zgoc (region_of rec_oil_zone pu_three) \<le> datum (region_of rec_oil_zone pu_three) \<and>
   datum (region_of rec_oil_zone pu_three) \<le> zwoc (region_of rec_oil_zone pu_three) \<and>
   phase_used (phaseUsage (region_of rec_oil_zone pu_three)) Liquid \<and>
   phaseSaturations linear_helpers (region_of rec_oil_zone pu_three) [0, 1] props_three
       [[0, 0], [0, 1 / 10], [2 / 5, 0]] =
     Inr [[3 / 10, 2 / 5], [0, 1 / 5], [7 / 10, 2 / 5]]"
proof -
  have a: "datum (region_of rec_datum_in_water pu_three) > zwoc (region_of rec_datum_in_water pu_three)"
    by (simp add: ex_defs rec_datum_in_water_def pu_water_gas_def)
  have b: "zgoc (region_of rec_oil_zone pu_water_gas) \<le> datum (region_of rec_oil_zone pu_water_gas) \<and>
      datum (region_of rec_oil_zone pu_water_gas) \<le> zwoc (region_of rec_oil_zone pu_water_gas) \<and>
      \<not> phase_used (phaseUsage (region_of rec_oil_zone pu_water_gas)) Liquid"
    by (simp add: ex_defs rec_datum_in_water_def pu_water_gas_def)
  have c: "zgoc (region_of rec_oil_zone pu_three) \<le> datum (region_of rec_oil_zone pu_three) \<and>
      datum (region_of rec_oil_zone pu_three) \<le> zwoc (region_of rec_oil_zone pu_three) \<and>
      phase_used (phaseUsage (region_of rec_oil_zone pu_three)) Liquid"
    by (simp add: ex_defs rec_datum_in_water_def pu_water_gas_def)
  have 1: "phaseSaturations linear_helpers (region_of rec_datum_in_water pu_three) [0, 1] props_three
       [[0, 0], [0, 1 / 10], [2 / 5, 0]] =
     Inl (RuntimeError ''Cannot initialise: the datum depth must be in the oil zone.'')"
    using phaseSaturations_preconditions[of "region_of rec_datum_in_water pu_three"
        linear_helpers "[0, 1]" props_three "[[0, 0], [0, 1 / 10], [2 / 5, 0]]"] a
    by blast
  have 2: "phaseSaturations linear_helpers (region_of rec_oil_zone pu_water_gas) [0, 1] props_three
       [[0, 0], [2 / 5, 0]] =
     Inl (RuntimeError ''Cannot initialise: not handling water-gas cases.'')"
    using phaseSaturations_preconditions[of "region_of rec_oil_zone pu_water_gas"
        linear_helpers "[0, 1]" props_three "[[0, 0], [2 / 5, 0]]"] b
    by blast
  have 3: "phaseSaturations linear_helpers (region_of rec_oil_zone pu_three) [0, 1] props_three
       [[0, 0], [0, 1 / 10], [2 / 5, 0]] =
     Inr (cells_loop linear_helpers (region_of rec_oil_zone pu_three) props_three
            [[0, 0], [0, 1 / 10], [2 / 5, 0]] [0, 1] 0 [[0, 0], [0, 1 / 10], [2 / 5, 0]])"
    using phaseSaturations_preconditions[of "region_of rec_oil_zone pu_three"
        linear_helpers "[0, 1]" props_three "[[0, 0], [0, 1 / 10], [2 / 5, 0]]"] c
    by blast
  from 3 ev_three
  have 4: "phaseSaturations linear_helpers (region_of rec_oil_zone pu_three) [0, 1] props_three
       [[0, 0], [0, 1 / 10], [2 / 5, 0]] = Inr [[3 / 10, 2 / 5], [0, 1 / 5], [7 / 10, 2 / 5]]"
    by simp
  from a b c 1 2 4 show ?thesis by blast
qed

lemma cell_saturations_pure_oil:
  assumes "\<not> phase_used (phaseUsage reg) Aqua" and "\<not> phase_used (phaseUsage reg) Vapour"
  shows "cell_saturations h reg props pp cell li ps
         = assign2 ps (phase_pos (phaseUsage reg) Liquid) li 1"
  using assms
  by (simp add: cell_saturations_closed Let_def overlap_def sw_final_def sg_final_def
        sw_inverted_def sg_inverted_def)

lemma cells_loop_pure_oil:
  assumes "\<not> phase_used (phaseUsage reg) Aqua" and "\<not> phase_used (phaseUsage reg) Vapour"
  shows "cells_loop h reg props pp cells k ps = cells_loop h' reg props' pp cells k ps"
  by (induction cells arbitrary: k ps) (simp_all add: cell_saturations_pure_oil[OF assms])

text \<open>
  Claim C7. In a pure-oil region (neither water nor gas active) whose datum lies in the
  oil zone, \<open>phaseSaturations\<close> returns without an error, the result does not depend
  on the capillary inverters or the property object, and the oil saturation of every
  cell is exactly 1.
\<close>

theorem pure_oil_saturation_one:
  assumes "\<not> phase_used (phaseUsage reg) Aqua" and "\<not> phase_used (phaseUsage reg) Vapour"
      and "phase_used (phaseUsage reg) Liquid"
      and "zgoc reg \<le> datum reg" and "datum reg \<le> zwoc reg"
      and "phase_pos (phaseUsage reg) Liquid < length phase_pressures"
      and "length cells \<le> length (phase_pressures ! phase_pos (phaseUsage reg) Liquid)"
  shows "\<exists>sat. (\<forall>h props. phaseSaturations h reg cells props phase_pressures = Inr sat) \<and>
           (\<forall>i<length cells. sat ! phase_pos (phaseUsage reg) Liquid ! i = 1)"
proof -
  fix h0 :: EquilibrationHelpers and props0 :: BlackoilPropertiesInterface
  let ?sat = "cells_loop h0 reg props0 phase_pressures cells 0 phase_pressures"
  have ws: "well_shaped reg phase_pressures (length cells)"
    using assms by (simp add: well_shaped_def)
  have a: "\<forall>h props. phaseSaturations h reg cells props phase_pressures = Inr ?sat"
    using phaseSaturations_Inr[OF assms(4,5,3)] cells_loop_pure_oil[OF assms(1,2)]
    by metis
  have "\<forall>i<length cells. ?sat ! phase_pos (phaseUsage reg) Liquid ! i = 1"
  proof (intro allI impI)
    fix i assume i: "i < length cells"
    from phaseSaturations_entries[OF assms(4,5,3) ws i, of h0 props0] a
    show "?sat ! phase_pos (phaseUsage reg) Liquid ! i = 1"
      using assms(1,2)
      by (simp add: sw_final_def sg_final_def overlap_def sw_inverted_def sg_inverted_def)
  qed
  with a show ?thesis by blast
qed


theorem pure_oil_saturation_one_witness:
  "\<not> phase_used (phaseUsage (region_of rec_oil_zone pu_oil)) Aqua \<and>
   \<not> phase_used (phaseUsage (region_of rec_oil_zone pu_oil)) Vapour \<and>
   phase_used (phaseUsage (region_of rec_oil_zone pu_oil)) Liquid \<and>
   zgoc (region_of rec_oil_zone pu_oil) \<le> datum (region_of rec_oil_zone pu_oil) \<and>
   datum (region_of rec_oil_zone pu_oil) \<le> zwoc (region_of rec_oil_zone pu_oil) \<and>
   phase_pos (phaseUsage (region_of rec_oil_zone pu_oil)) Liquid < length [[200, 201 :: real]] \<and>
   length [4 :: nat, 7]
     \<le> length ([[200, 201 :: real]] ! phase_pos (phaseUsage (region_of rec_oil_zone pu_oil)) Liquid) \<and>
   phaseSaturations linear_helpers (region_of rec_oil_zone pu_oil) [4, 7] props_three [[200, 201]]
     = Inr [[1, 1]]"
proof -
  have h: "\<not> phase_used (phaseUsage (region_of rec_oil_zone pu_oil)) Aqua"
    "\<not> phase_used (phaseUsage (region_of rec_oil_zone pu_oil)) Vapour"
    "phase_used (phaseUsage (region_of rec_oil_zone pu_oil)) Liquid"
    "zgoc (region_of rec_oil_zone pu_oil) \<le> datum (region_of rec_oil_zone pu_oil)"
    "datum (region_of rec_oil_zone pu_oil) \<le> zwoc (region_of rec_oil_zone pu_oil)"
    "phase_pos (phaseUsage (region_of rec_oil_zone pu_oil)) Liquid < length [[200, 201 :: real]]"
    "length [4 :: nat, 7]
      \<le> length ([[200, 201 :: real]] ! phase_pos (phaseUsage (region_of rec_oil_zone pu_oil)) Liquid)"
    by (simp_all add: ex_defs pu_oil_def)
  from pure_oil_saturation_one[OF h]
  obtain sat where s: "\<forall>h props. phaseSaturations h (region_of rec_oil_zone pu_oil) [4, 7] props
        [[200, 201]] = Inr sat"
    and one: "\<forall>i<length [4 :: nat, 7].
        sat ! phase_pos (phaseUsage (region_of rec_oil_zone pu_oil)) Liquid ! i = 1"
    by blast
  have ev: "phaseSaturations linear_helpers (region_of rec_oil_zone pu_oil) [4, 7] props_three
      [[200, 201]] = Inr [[1, 1]]"
    by (simp add: ex_defs pu_oil_def sat_defs)
  with s have "sat = [[1, 1]]" by simp
  with s h show ?thesis by simp
qed

text \<open>
  Claim C2. Where water and gas are both active, the overlap correction runs exactly
  when the two independently inverted saturations have a sum above one. Then the water
  saturation is the inverse of the sum of the two capillary curves at \<open>p_gas - p_water\<close>,
  the gas saturation is one minus it, and the oil saturation is exactly 0; otherwise the
  independent inversions stand.
\<close>

theorem overlap_correction:
  assumes "zgoc reg \<le> datum reg" and "datum reg \<le> zwoc reg"
      and "phase_used (phaseUsage reg) Liquid"
      and "well_shaped reg phase_pressures (length cells)"
      and "phase_used (phaseUsage reg) Aqua" and "phase_used (phaseUsage reg) Vapour"
      and "i < length cells"
  shows "\<exists>sat. phaseSaturations h reg cells props phase_pressures = Inr sat \<and>
     (let oilpos = phase_pos (phaseUsage reg) Liquid;
          waterpos = phase_pos (phaseUsage reg) Aqua;
          gaspos = phase_pos (phaseUsage reg) Vapour;
          p_oil = phase_pressures ! oilpos ! i;
          p_water = phase_pressures ! waterpos ! i;
          p_gas = phase_pressures ! gaspos ! i;
          sw = satFromPc h props waterpos (cells ! i) (p_oil - p_water) False;
          sg = satFromPc h props gaspos (cells ! i) (p_gas - p_oil) True
      in if sw + sg > 1 then
           sat ! waterpos ! i = satFromSumOfPcs h props waterpos gaspos (cells ! i) (p_gas - p_water) \<and>
           sat ! gaspos ! i = 1 - sat ! waterpos ! i \<and>
           sat ! waterpos ! i + sat ! gaspos ! i = 1 \<and>
           sat ! oilpos ! i = 0
         else
           sat ! waterpos ! i = sw \<and> sat ! gaspos ! i = sg \<and>
           sat ! oilpos ! i = 1 - sw - sg)"
  using phaseSaturations_entries[OF assms(1-4,7), of h props] assms(5,6)
  by (auto simp: Let_def sw_final_def sg_final_def overlap_def sw_inverted_def sg_inverted_def
        satFromPc_default_increasing_def add.commute)

theorem overlap_correction_witness:
  "zgoc (region_of rec_oil_zone pu_three) \<le> datum (region_of rec_oil_zone pu_three) \<and>
   datum (region_of rec_oil_zone pu_three) \<le> zwoc (region_of rec_oil_zone pu_three) \<and>
   phase_used (phaseUsage (region_of rec_oil_zone pu_three)) Liquid \<and>
   well_shaped (region_of rec_oil_zone pu_three) [[0, 0], [0, 1 / 10], [2 / 5, 0]] (length [0::nat, 1]) \<and>
   phase_used (phaseUsage (region_of rec_oil_zone pu_three)) Aqua \<and>
   phase_used (phaseUsage (region_of rec_oil_zone pu_three)) Vapour \<and>
   0 < length [0::nat, 1] \<and>
   satFromPc linear_helpers props_three 0 0 (0 - 0) False
     + satFromPc linear_helpers props_three 2 0 (2 / 5 - 0) True = 11 / 10 \<and>
   satFromSumOfPcs linear_helpers props_three 0 2 0 (2 / 5 - 0) = 3 / 10 \<and>
   phaseSaturations linear_helpers (region_of rec_oil_zone pu_three) [0, 1] props_three
     [[0, 0], [0, 1 / 10], [2 / 5, 0]] = Inr [[3 / 10, 2 / 5], [0, 1 / 5], [7 / 10, 2 / 5]]"
proof -
  have i: "0 < length [0::nat, 1]" by simp
  have v: "satFromPc linear_helpers props_three 0 0 (0 - 0) False
     + satFromPc linear_helpers props_three 2 0 (2 / 5 - 0) True = 11 / 10"
    "satFromSumOfPcs linear_helpers props_three 0 2 0 (2 / 5 - 0) = 3 / 10"
    by (simp_all add: ex_defs)
  from overlap_correction[OF hyps_three i, of linear_helpers props_three]
  show ?thesis using hyps_three i v ev_three by simp
qed

text \<open>
  Claim C5. The water saturation comes from \<open>satFromPc\<close> in the decreasing direction at
  \<open>p_oil - p_water\<close>, the gas saturation from \<open>satFromPc\<close> in the increasing direction
  at \<open>p_gas - p_oil\<close>, with the pressures read at the local index of the cell; these two
  values decide the guard of the overlap correction and are the result when it is false.
\<close>

theorem capillary_inversion_targets:
  assumes "zgoc reg \<le> datum reg" and "datum reg \<le> zwoc reg"
      and "phase_used (phaseUsage reg) Liquid"
      and "well_shaped reg phase_pressures (length cells)"
      and "i < length cells"
  shows "\<exists>sat. phaseSaturations h reg cells props phase_pressures = Inr sat \<and>
     (let water = phase_used (phaseUsage reg) Aqua;
          gas = phase_used (phaseUsage reg) Vapour;
          oilpos = phase_pos (phaseUsage reg) Liquid;
          waterpos = phase_pos (phaseUsage reg) Aqua;
          gaspos = phase_pos (phaseUsage reg) Vapour;
          p_oil = phase_pressures ! oilpos ! i;
          p_water = phase_pressures ! waterpos ! i;
          p_gas = phase_pressures ! gaspos ! i;
          sw = satFromPc h props waterpos (cells ! i) (p_oil - p_water) False;
          sg = satFromPc h props gaspos (cells ! i) (p_gas - p_oil) True
      in (water \<longrightarrow> sat ! waterpos ! i =
            (if gas \<and> sg + sw > 1
             then satFromSumOfPcs h props waterpos gaspos (cells ! i) (p_gas - p_water)
             else sw)) \<and>
         (gas \<longrightarrow> sat ! gaspos ! i =
            (if water \<and> sg + sw > 1
             then 1 - satFromSumOfPcs h props waterpos gaspos (cells ! i) (p_gas - p_water)
             else sg)))"
  using phaseSaturations_entries[OF assms, of h props]
  by (auto simp: Let_def sw_final_def sg_final_def overlap_def sw_inverted_def sg_inverted_def
        satFromPc_default_increasing_def)


theorem capillary_inversion_targets_witness:
  "zgoc (region_of rec_oil_zone pu_three) \<le> datum (region_of rec_oil_zone pu_three) \<and>
   datum (region_of rec_oil_zone pu_three) \<le> zwoc (region_of rec_oil_zone pu_three) \<and>
   phase_used (phaseUsage (region_of rec_oil_zone pu_three)) Liquid \<and>
   well_shaped (region_of rec_oil_zone pu_three) [[0, 0], [0, 1 / 10], [2 / 5, 0]] (length [0::nat, 1]) \<and>
   1 < length [0::nat, 1] \<and>
   satFromPc linear_helpers props_three 0 1 (1 / 10 - 0) False = 2 / 5 \<and>
   satFromPc linear_helpers props_three 2 1 (0 - 1 / 10) True = 2 / 5 \<and>
   phaseSaturations linear_helpers (region_of rec_oil_zone pu_three) [0, 1] props_three
     [[0, 0], [0, 1 / 10], [2 / 5, 0]] = Inr [[3 / 10, 2 / 5], [0, 1 / 5], [7 / 10, 2 / 5]]"
proof -
  have i: "1 < length [0::nat, 1]" by simp
  have v: "satFromPc linear_helpers props_three 0 1 (1 / 10 - 0) False = 2 / 5"
    "satFromPc linear_helpers props_three 2 1 (0 - 1 / 10) True = 2 / 5"
    by (simp_all add: ex_defs)
  from capillary_inversion_targets[OF hyps_three(1-4) i, of linear_helpers props_three]
  show ?thesis using hyps_three i v ev_three by simp
qed

text \<open>
  Claim C9. When the inverters clamp to the range of the inverted phase and the ranges
  of water and gas end at or below one, the oil saturation written for a cell is
  nonnegative: either the overlap correction fired and it is exactly 0, or the sum of the
  two inverted saturations is not above one and it is their closure value. No clamp of
  the oil saturation is applied: it is the closure value in both cases.
\<close>

theorem oil_saturation_nonnegative:
  assumes "zgoc reg \<le> datum reg" and "datum reg \<le> zwoc reg"
      and "phase_used (phaseUsage reg) Liquid"
      and "well_shaped reg phase_pressures (length cells)"
      and "i < length cells"
      and "inverter_clamped h reg props (cells ! i)"
      and "phase_used (phaseUsage reg) Aqua \<longrightarrow>
             snd (satRange props (cells ! i)) ! phase_pos (phaseUsage reg) Aqua \<le> 1"
      and "phase_used (phaseUsage reg) Vapour \<longrightarrow>
             snd (satRange props (cells ! i)) ! phase_pos (phaseUsage reg) Vapour \<le> 1"
  shows "\<exists>sat. phaseSaturations h reg cells props phase_pressures = Inr sat \<and>
     0 \<le> sat ! phase_pos (phaseUsage reg) Liquid ! i \<and>
     sat ! phase_pos (phaseUsage reg) Liquid ! i
       = 1 - (if phase_used (phaseUsage reg) Aqua
              then sat ! phase_pos (phaseUsage reg) Aqua ! i else 0)
           - (if phase_used (phaseUsage reg) Vapour
              then sat ! phase_pos (phaseUsage reg) Vapour ! i else 0) \<and>
     (if overlap h reg props phase_pressures (cells ! i) i
      then sat ! phase_pos (phaseUsage reg) Liquid ! i = 0
      else \<not> (sw_inverted h reg props phase_pressures (cells ! i) i
                + sg_inverted h reg props phase_pressures (cells ! i) i > 1) \<and>
           sat ! phase_pos (phaseUsage reg) Liquid ! i
             = 1 - sw_inverted h reg props phase_pressures (cells ! i) i
                 - sg_inverted h reg props phase_pressures (cells ! i) i)"
proof -
  let ?swI = "sw_inverted h reg props phase_pressures (cells ! i) i"
  let ?sgI = "sg_inverted h reg props phase_pressures (cells ! i) i"
  let ?swF = "sw_final h reg props phase_pressures (cells ! i) i"
  let ?sgF = "sg_final h reg props phase_pressures (cells ! i) i"
  let ?ov = "overlap h reg props phase_pressures (cells ! i) i"
  from phaseSaturations_entries[OF assms(1-5), of h props]
  obtain sat where s: "phaseSaturations h reg cells props phase_pressures = Inr sat"
    and oil: "sat ! phase_pos (phaseUsage reg) Liquid ! i = 1 - ?swF - ?sgF"
    and water: "phase_used (phaseUsage reg) Aqua \<Longrightarrow>
       sat ! phase_pos (phaseUsage reg) Aqua ! i = ?swF"
    and gas: "phase_used (phaseUsage reg) Vapour \<Longrightarrow>
       sat ! phase_pos (phaseUsage reg) Vapour ! i = ?sgF"
    by blast
  have w0: "\<not> phase_used (phaseUsage reg) Aqua \<Longrightarrow> ?swF = 0"
    by (simp add: sw_final_def overlap_def sw_inverted_def)
  have g0: "\<not> phase_used (phaseUsage reg) Vapour \<Longrightarrow> ?sgF = 0"
    by (simp add: sg_final_def overlap_def sg_inverted_def)
  have wI: "?swI \<le> 1"
  proof (cases "phase_used (phaseUsage reg) Aqua")
    case True
    with assms(6) have "?swI \<le> snd (satRange props (cells ! i)) ! phase_pos (phaseUsage reg) Aqua"
      by (simp add: inverter_clamped_def Let_def sw_inverted_def)
    with assms(7) True show ?thesis by simp
  next
    case False
    then show ?thesis by (simp add: sw_inverted_def)
  qed
  have gI: "?sgI \<le> 1"
  proof (cases "phase_used (phaseUsage reg) Vapour")
    case True
    with assms(6) have "?sgI \<le> snd (satRange props (cells ! i)) ! phase_pos (phaseUsage reg) Vapour"
      by (simp add: inverter_clamped_def Let_def sg_inverted_def)
    with assms(8) True show ?thesis by simp
  next
    case False
    then show ?thesis by (simp add: sg_inverted_def)
  qed
  have sum: "\<not> ?ov \<Longrightarrow> \<not> (?swI + ?sgI > 1)"
  proof -
    assume n: "\<not> ?ov"
    show "\<not> (?swI + ?sgI > 1)"
    proof (cases "phase_used (phaseUsage reg) Aqua \<and> phase_used (phaseUsage reg) Vapour")
      case True
      with n show ?thesis by (simp add: overlap_def add.commute)
    next
      case False
      then have "?swI = 0 \<or> ?sgI = 0" by (auto simp: sw_inverted_def sg_inverted_def)
      with wI gI show ?thesis by auto
    qed
  qed
  have fin: "\<not> ?ov \<Longrightarrow> ?swF = ?swI \<and> ?sgF = ?sgI"
    by (simp add: sw_final_def sg_final_def)
  have zero: "?ov \<Longrightarrow> 1 - ?swF - ?sgF = 0"
    by (simp add: sg_final_def)
  have nonneg: "0 \<le> 1 - ?swF - ?sgF"
  proof (cases ?ov)
    case True
    with zero show ?thesis by simp
  next
    case False
    with sum fin show ?thesis by simp
  qed
  have closure: "sat ! phase_pos (phaseUsage reg) Liquid ! i
       = 1 - (if phase_used (phaseUsage reg) Aqua
              then sat ! phase_pos (phaseUsage reg) Aqua ! i else 0)
           - (if phase_used (phaseUsage reg) Vapour
              then sat ! phase_pos (phaseUsage reg) Vapour ! i else 0)"
    using oil water gas w0 g0 by simp
  show ?thesis
  proof (cases ?ov)
    case True
    with s oil zero nonneg closure show ?thesis by simp
  next
    case False
    with s oil sum fin nonneg closure show ?thesis by simp
  qed
qed

theorem oil_saturation_nonnegative_witness:
  "zgoc (region_of rec_oil_zone pu_water_oil) \<le> datum (region_of rec_oil_zone pu_water_oil) \<and>
   datum (region_of rec_oil_zone pu_water_oil) \<le> zwoc (region_of rec_oil_zone pu_water_oil) \<and>
   phase_used (phaseUsage (region_of rec_oil_zone pu_water_oil)) Liquid \<and>
   well_shaped (region_of rec_oil_zone pu_water_oil) [[0, 0], [- 1, 1 / 10]] (length [0::nat, 1]) \<and>
   inverter_clamped linear_helpers (region_of rec_oil_zone pu_water_oil) props_water_oil 0 \<and>
   inverter_clamped linear_helpers (region_of rec_oil_zone pu_water_oil) props_water_oil 1 \<and>
   phase_used (phaseUsage (region_of rec_oil_zone pu_water_oil)) Aqua \<and>
   \<not> phase_used (phaseUsage (region_of rec_oil_zone pu_water_oil)) Vapour \<and>
   snd (satRange props_water_oil 0) ! phase_pos (phaseUsage (region_of rec_oil_zone pu_water_oil)) Aqua
     \<le> 1 \<and>
   phaseSaturations linear_helpers (region_of rec_oil_zone pu_water_oil) [0, 1] props_water_oil
     [[0, 0], [- 1, 1 / 10]] = Inr [[1, 2 / 5], [0, 3 / 5]] \<and>
   (0 :: real) \<le> 0 \<and> (0 :: real) \<le> 3 / 5"
proof -
  let ?reg = "region_of rec_oil_zone pu_water_oil"
  have h: "zgoc ?reg \<le> datum ?reg" "datum ?reg \<le> zwoc ?reg"
    "phase_used (phaseUsage ?reg) Liquid"
    "well_shaped ?reg [[0, 0], [- 1, 1 / 10]] (length [0::nat, 1])"
    by (simp_all add: well_shaped_def ex_defs pu_water_oil_def)
  have i: "0 < length [0::nat, 1]" by simp
  have c: "inverter_clamped linear_helpers ?reg props_water_oil c" for c
    by (simp add: inverter_clamped_def ex_defs pu_water_oil_def props_water_oil_def)
  have c0: "inverter_clamped linear_helpers ?reg props_water_oil ([0, 1] ! 0)"
    by (rule c)
  have u: "phase_used (phaseUsage ?reg) Aqua" "\<not> phase_used (phaseUsage ?reg) Vapour"
    "snd (satRange props_water_oil 0) ! phase_pos (phaseUsage ?reg) Aqua \<le> 1"
    by (simp_all add: ex_defs pu_water_oil_def props_water_oil_def)
  have bw: "phase_used (phaseUsage ?reg) Aqua \<longrightarrow>
      snd (satRange props_water_oil ([0, 1] ! 0)) ! phase_pos (phaseUsage ?reg) Aqua \<le> 1"
    using u by simp
  have bg: "phase_used (phaseUsage ?reg) Vapour \<longrightarrow>
      snd (satRange props_water_oil ([0, 1] ! 0)) ! phase_pos (phaseUsage ?reg) Vapour \<le> 1"
    using u by simp
  have ev: "phaseSaturations linear_helpers ?reg [0, 1] props_water_oil
      [[0, 0], [- 1, 1 / 10]] = Inr [[1, 2 / 5], [0, 3 / 5]]"
    by (simp add: ex_defs pu_water_oil_def props_water_oil_def sat_defs)
  from oil_saturation_nonnegative[OF h i c0 bw bg]
  have "\<exists>sat. phaseSaturations linear_helpers ?reg [0, 1] props_water_oil
      [[0, 0], [- 1, 1 / 10]] = Inr sat"
    by blast
  with h c[of 0] c[of 1] u ev show ?thesis by simp
qed

text \<open>
  Claim C3, as stated, fails for the gas saturation of the overlap branch and for the oil
  saturation: with inverters that clamp to the range of the inverted phase, cell 0 of the
  three-phase test region gets the gas saturation \<open>7/10\<close> above its maximum \<open>3/5\<close>
  and the oil saturation \<open>0\<close> below its minimum \<open>1/10\<close>.
\<close>

theorem saturation_range_counterexample:
  "inverter_clamped linear_helpers (region_of rec_oil_zone pu_three) props_three 0 \<and>
   phaseSaturations linear_helpers (region_of rec_oil_zone pu_three) [0, 1] props_three
     [[0, 0], [0, 1 / 10], [2 / 5, 0]] = Inr [[3 / 10, 2 / 5], [0, 1 / 5], [7 / 10, 2 / 5]] \<and>
   satRange props_three 0 = ([1 / 5, 1 / 10, 0], [1, 4 / 5, 3 / 5]) \<and>
   phase_pos (phaseUsage (region_of rec_oil_zone pu_three)) Liquid = 1 \<and>
   phase_pos (phaseUsage (region_of rec_oil_zone pu_three)) Vapour = 2 \<and>
   [[3 / 10, 2 / 5], [0, 1 / 5], [7 / 10, 2 / 5 :: real]] ! 2 ! 0
     > snd (satRange props_three 0) ! 2 \<and>
   [[3 / 10, 2 / 5], [0, 1 / 5], [7 / 10, 2 / 5 :: real]] ! 1 ! 0
     < fst (satRange props_three 0) ! 1"
proof -
  have "satRange props_three 0 = ([1 / 5, 1 / 10, 0], [1, 4 / 5, 3 / 5])"
    "phase_pos (phaseUsage (region_of rec_oil_zone pu_three)) Liquid = 1"
    "phase_pos (phaseUsage (region_of rec_oil_zone pu_three)) Vapour = 2"
    "[[3 / 10, 2 / 5], [0, 1 / 5], [7 / 10, 2 / 5 :: real]] ! 2 ! 0
       > snd (satRange props_three 0) ! 2"
    "[[3 / 10, 2 / 5], [0, 1 / 5], [7 / 10, 2 / 5 :: real]] ! 1 ! 0
       < fst (satRange props_three 0) ! 1"
    by (simp_all add: ex_defs)
  with inverter_clamped_three[of 0] ev_three show ?thesis by blast
qed

text \<open>
  Claim C3, amended. When the inverters clamp to the range of the inverted phase, the
  water saturation of every cell lies within the water bounds, and the gas saturation
  lies within the gas bounds where the overlap correction does not fire. Where it fires
  the gas saturation is one minus the water saturation, between \<open>1 - s_max\<close> and
  \<open>1 - s_min\<close> of water, and the oil saturation is 0. The oil saturation is always the
  closure value; neither of the two is compared with the range of its own phase.
\<close>

theorem saturations_within_range:
  assumes "zgoc reg \<le> datum reg" and "datum reg \<le> zwoc reg"
      and "phase_used (phaseUsage reg) Liquid"
      and "well_shaped reg phase_pressures (length cells)"
      and "i < length cells"
      and "inverter_clamped h reg props (cells ! i)"
  shows "\<exists>sat. phaseSaturations h reg cells props phase_pressures = Inr sat \<and>
     (let water = phase_used (phaseUsage reg) Aqua;
          gas = phase_used (phaseUsage reg) Vapour;
          oilpos = phase_pos (phaseUsage reg) Liquid;
          waterpos = phase_pos (phaseUsage reg) Aqua;
          gaspos = phase_pos (phaseUsage reg) Vapour;
          smin = fst (satRange props (cells ! i));
          smax = snd (satRange props (cells ! i));
          corrected = overlap h reg props phase_pressures (cells ! i) i
      in (water \<longrightarrow> smin ! waterpos \<le> sat ! waterpos ! i \<and> sat ! waterpos ! i \<le> smax ! waterpos) \<and>
         (gas \<and> \<not> corrected \<longrightarrow>
            smin ! gaspos \<le> sat ! gaspos ! i \<and> sat ! gaspos ! i \<le> smax ! gaspos) \<and>
         (corrected \<longrightarrow>
            sat ! gaspos ! i = 1 - sat ! waterpos ! i \<and>
            1 - smax ! waterpos \<le> sat ! gaspos ! i \<and> sat ! gaspos ! i \<le> 1 - smin ! waterpos \<and>
            sat ! oilpos ! i = 0) \<and>
         sat ! oilpos ! i = 1 - (if water then sat ! waterpos ! i else 0)
                              - (if gas then sat ! gaspos ! i else 0))"
proof -
  from phaseSaturations_entries[OF assms(1-5), of h props]
  obtain sat where s: "phaseSaturations h reg cells props phase_pressures = Inr sat"
    and oil: "sat ! phase_pos (phaseUsage reg) Liquid ! i
       = 1 - sw_final h reg props phase_pressures (cells ! i) i
           - sg_final h reg props phase_pressures (cells ! i) i"
    and water: "phase_used (phaseUsage reg) Aqua \<Longrightarrow>
       sat ! phase_pos (phaseUsage reg) Aqua ! i
         = sw_final h reg props phase_pressures (cells ! i) i"
    and gas: "phase_used (phaseUsage reg) Vapour \<Longrightarrow>
       sat ! phase_pos (phaseUsage reg) Vapour ! i
         = sg_final h reg props phase_pressures (cells ! i) i"
    by blast
  have w0: "\<not> phase_used (phaseUsage reg) Aqua \<Longrightarrow>
      sw_final h reg props phase_pressures (cells ! i) i = 0"
    by (simp add: sw_final_def overlap_def sw_inverted_def)
  have g0: "\<not> phase_used (phaseUsage reg) Vapour \<Longrightarrow>
      sg_final h reg props phase_pressures (cells ! i) i = 0"
    by (simp add: sg_final_def overlap_def sg_inverted_def)
  have wb: "phase_used (phaseUsage reg) Aqua \<Longrightarrow>
      fst (satRange props (cells ! i)) ! phase_pos (phaseUsage reg) Aqua
        \<le> sw_final h reg props phase_pressures (cells ! i) i \<and>
      sw_final h reg props phase_pressures (cells ! i) i
        \<le> snd (satRange props (cells ! i)) ! phase_pos (phaseUsage reg) Aqua"
    using assms(6)
    by (simp add: inverter_clamped_def Let_def sw_final_def sw_inverted_def overlap_def)
  have gb: "phase_used (phaseUsage reg) Vapour \<Longrightarrow>
      \<not> overlap h reg props phase_pressures (cells ! i) i \<Longrightarrow>
      fst (satRange props (cells ! i)) ! phase_pos (phaseUsage reg) Vapour
        \<le> sg_final h reg props phase_pressures (cells ! i) i \<and>
      sg_final h reg props phase_pressures (cells ! i) i
        \<le> snd (satRange props (cells ! i)) ! phase_pos (phaseUsage reg) Vapour"
    using assms(6)
    by (simp add: inverter_clamped_def Let_def sg_final_def sg_inverted_def)
  have ov: "overlap h reg props phase_pressures (cells ! i) i \<Longrightarrow>
      phase_used (phaseUsage reg) Aqua \<and> phase_used (phaseUsage reg) Vapour \<and>
      sg_final h reg props phase_pressures (cells ! i) i
        = 1 - sw_final h reg props phase_pressures (cells ! i) i"
    by (simp add: overlap_def sg_final_def)
  show ?thesis
    using s oil water gas w0 g0 wb gb ov
    by (auto simp: Let_def)
qed


theorem saturations_within_range_witness:
  "zgoc (region_of rec_oil_zone pu_three) \<le> datum (region_of rec_oil_zone pu_three) \<and>
   datum (region_of rec_oil_zone pu_three) \<le> zwoc (region_of rec_oil_zone pu_three) \<and>
   phase_used (phaseUsage (region_of rec_oil_zone pu_three)) Liquid \<and>
   well_shaped (region_of rec_oil_zone pu_three) [[0, 0], [0, 1 / 10], [2 / 5, 0]] (length [0::nat, 1]) \<and>
   1 < length [0::nat, 1] \<and>
   inverter_clamped linear_helpers (region_of rec_oil_zone pu_three) props_three ([0, 1] ! 1) \<and>
   \<not> overlap linear_helpers (region_of rec_oil_zone pu_three) props_three
        [[0, 0], [0, 1 / 10], [2 / 5, 0]] ([0, 1] ! 1) 1 \<and>
   0 < length [0::nat, 1] \<and>
   inverter_clamped linear_helpers (region_of rec_oil_zone pu_three) props_three ([0, 1] ! 0) \<and>
   overlap linear_helpers (region_of rec_oil_zone pu_three) props_three
        [[0, 0], [0, 1 / 10], [2 / 5, 0]] ([0, 1] ! 0) 0 \<and>
   phaseSaturations linear_helpers (region_of rec_oil_zone pu_three) [0, 1] props_three
     [[0, 0], [0, 1 / 10], [2 / 5, 0]] = Inr [[3 / 10, 2 / 5], [0, 1 / 5], [7 / 10, 2 / 5]] \<and>
   satRange props_three ([0, 1] ! 1) = ([1 / 5, 1 / 10, 0], [1, 4 / 5, 3 / 5]) \<and>
   satRange props_three ([0, 1] ! 0) = ([1 / 5, 1 / 10, 0], [1, 4 / 5, 3 / 5]) \<and>
   (1 / 5 :: real) \<le> 2 / 5 \<and> (2 / 5 :: real) \<le> 1 \<and> (0 :: real) \<le> 2 / 5 \<and> (2 / 5 :: real) \<le> 3 / 5 \<and>
   (1 / 5 :: real) \<le> 3 / 10 \<and> (3 / 10 :: real) \<le> 1 \<and> (7 / 10 :: real) = 1 - 3 / 10"
proof -
  have i: "1 < length [0::nat, 1]" and j: "0 < length [0::nat, 1]" by simp_all
  have c: "inverter_clamped linear_helpers (region_of rec_oil_zone pu_three) props_three ([0, 1] ! 1)"
    and d: "inverter_clamped linear_helpers (region_of rec_oil_zone pu_three) props_three ([0, 1] ! 0)"
    by (rule inverter_clamped_three)+
  have n: "\<not> overlap linear_helpers (region_of rec_oil_zone pu_three) props_three
        [[0, 0], [0, 1 / 10], [2 / 5, 0]] ([0, 1] ! 1) 1"
    by (simp add: overlap_def sw_inverted_def sg_inverted_def ex_defs
          satFromPc_default_increasing_def)
  have o: "overlap linear_helpers (region_of rec_oil_zone pu_three) props_three
        [[0, 0], [0, 1 / 10], [2 / 5, 0]] ([0, 1] ! 0) 0"
    by (simp add: overlap_def sw_inverted_def sg_inverted_def ex_defs
          satFromPc_default_increasing_def)
  have r: "satRange props_three ([0, 1] ! 1) = ([1 / 5, 1 / 10, 0], [1, 4 / 5, 3 / 5])"
    "satRange props_three ([0, 1] ! 0) = ([1 / 5, 1 / 10, 0], [1, 4 / 5, 3 / 5])"
    by (simp_all add: ex_defs)
  from saturations_within_range[OF hyps_three(1-4) i c]
       saturations_within_range[OF hyps_three(1-4) j d]
  have "\<exists>sat. phaseSaturations linear_helpers (region_of rec_oil_zone pu_three) [0, 1]
      props_three [[0, 0], [0, 1 / 10], [2 / 5, 0]] = Inr sat"
    by blast
  with ev_three hyps_three(1-4) i j c d n o r show ?thesis by simp
qed

section \<open>Properties of PhasePressureSaturationComputer\<close>

subsection \<open>The scatter loops\<close>

lemma length_scatter: "length (scatter cells src k d) = length d"
  by (induction cells arbitrary: k d) simp_all

lemma scatter_notin: "c \<notin> set cells \<Longrightarrow> scatter cells src k d ! c = d ! c"
  by (induction cells arbitrary: k d) auto

lemma scatter_in:
  assumes "distinct cells" and "\<forall>c \<in> set cells. c < length d" and "i < length cells"
  shows "scatter cells src k d ! (cells ! i) = src ! (k + i)"
  using assms
proof (induction cells arbitrary: k d i)
  case Nil
  then show ?case by simp
next
  case (Cons c cs)
  show ?case
  proof (cases i)
    case 0
    with Cons.prems show ?thesis by (simp add: scatter_notin)
  next
    case (Suc j)
    with Cons.prems have "scatter cs src (Suc k) (d[c := src ! k]) ! (cs ! j) = src ! (Suc k + j)"
      by (intro Cons.IH) simp_all
    with Suc show ?thesis by simp
  qed
qed

lemma scatter_same:
  assumes "\<forall>i < length cells. d ! (cells ! i) = src ! (k + i)"
  shows "scatter cells src k d = d"
  using assms
proof (induction cells arbitrary: k)
  case Nil
  then show ?case by simp
next
  case (Cons c cs)
  from Cons.prems have "d ! c = src ! k" by force
  then have "d[c := src ! k] = d" by (metis list_update_id)
  moreover from Cons.prems have "\<forall>i < length cs. d ! (cs ! i) = src ! (Suc k + i)"
    by force
  ultimately show ?case using Cons.IH by simp
qed

lemma length_scatter_phases: "length (scatter_phases np cells res a) = length a"
  by (induction np arbitrary: a) (simp_all add: scatter_phases_def)

lemma scatter_phases_Suc:
  "scatter_phases (Suc n) cells res a =
     (scatter_phases n cells res a)[n := scatter cells (res ! n) 0 (scatter_phases n cells res a ! n)]"
  by (simp add: scatter_phases_def)

lemma scatter_phases_beyond: "np \<le> p \<Longrightarrow> scatter_phases np cells res a ! p = a ! p"
  by (induction np) (simp_all add: scatter_phases_Suc scatter_phases_def)

lemma scatter_phases_nth:
  "p < np \<Longrightarrow> np \<le> length a \<Longrightarrow>
   scatter_phases np cells res a ! p = scatter cells (res ! p) 0 (a ! p)"
proof (induction np)
  case 0
  then show ?case by simp
next
  case (Suc n)
  show ?case
  proof (cases "p = n")
    case True
    with Suc.prems show ?thesis
      by (simp add: scatter_phases_Suc length_scatter_phases scatter_phases_beyond)
  next
    case False
    with Suc show ?thesis by (simp add: scatter_phases_Suc)
  qed
qed

lemma scatter_phases_same:
  assumes "\<forall>p < np. \<forall>i < length cells. a ! p ! (cells ! i) = res ! p ! i"
  shows "scatter_phases np cells res a = a"
  using assms
proof (induction np)
  case 0
  then show ?case by (simp add: scatter_phases_def)
next
  case (Suc n)
  then have a: "scatter_phases n cells res a = a" by simp
  from Suc.prems have "scatter cells (res ! n) 0 (a ! n) = a ! n"
    by (intro scatter_same) simp
  with a show ?case by (simp add: scatter_phases_Suc)
qed


lemma scatter_phases_region:
  assumes "distinct cells" and "\<forall>c \<in> set cells. c < n"
      and "np \<le> length a" and "\<forall>p < np. length (a ! p) = n"
  shows "length (scatter_phases np cells res a) = length a"
    and "\<forall>p < np. length (scatter_phases np cells res a ! p) = n"
    and "\<forall>p < np. \<forall>i < length cells. scatter_phases np cells res a ! p ! (cells ! i) = res ! p ! i"
    and "\<forall>p < np. \<forall>c. c \<notin> set cells \<longrightarrow> scatter_phases np cells res a ! p ! c = a ! p ! c"
  using assms
  by (simp_all add: length_scatter_phases scatter_phases_nth length_scatter scatter_in
        scatter_notin)

lemma fold_scatter_regions:
  assumes "region_partition reg n"
      and "distinct rs" and "\<forall>r \<in> set rs. r < length reg"
      and "np \<le> length a" and "\<forall>p < np. length (a ! p) = n"
  shows "length (fold (\<lambda>r a. scatter_phases np (reg ! r) (val r) a) rs a) = length a \<and>
         (\<forall>p < np. length (fold (\<lambda>r a. scatter_phases np (reg ! r) (val r) a) rs a ! p) = n) \<and>
         (\<forall>p < np. \<forall>r \<in> set rs. \<forall>i < length (reg ! r).
            fold (\<lambda>r a. scatter_phases np (reg ! r) (val r) a) rs a ! p ! (reg ! r ! i)
              = val r ! p ! i) \<and>
         (\<forall>p < np. \<forall>c. (\<forall>r \<in> set rs. c \<notin> set (reg ! r)) \<longrightarrow>
            fold (\<lambda>r a. scatter_phases np (reg ! r) (val r) a) rs a ! p ! c = a ! p ! c)"
  using assms(2-)
proof (induction rs arbitrary: a)
  case Nil
  then show ?case by simp
next
  case (Cons r rs)
  let ?a' = "scatter_phases np (reg ! r) (val r) a"
  let ?F = "fold (\<lambda>r a. scatter_phases np (reg ! r) (val r) a) rs ?a'"
  from Cons.prems have r: "r < length reg" and nin: "r \<notin> set rs" by simp_all
  from assms(1) r have d: "distinct (reg ! r)" and b: "\<forall>c \<in> set (reg ! r). c < n"
    by (simp_all add: region_partition_def)
  note S = scatter_phases_region[OF d b Cons.prems(3,4), of "val r"]
  from Cons.prems S(1,2)
  have IH: "length ?F = length ?a' \<and>
         (\<forall>p < np. length (?F ! p) = n) \<and>
         (\<forall>p < np. \<forall>r \<in> set rs. \<forall>i < length (reg ! r). ?F ! p ! (reg ! r ! i) = val r ! p ! i) \<and>
         (\<forall>p < np. \<forall>c. (\<forall>r \<in> set rs. c \<notin> set (reg ! r)) \<longrightarrow> ?F ! p ! c = ?a' ! p ! c)"
    by (intro Cons.IH) simp_all
  have disj: "\<forall>r' \<in> set rs. \<forall>i < length (reg ! r). reg ! r ! i \<notin> set (reg ! r')"
  proof (intro ballI allI impI)
    fix r' i assume r': "r' \<in> set rs" and i: "i < length (reg ! r)"
    with Cons.prems nin have "r' < length reg" "r \<noteq> r'" by auto
    with assms(1) r have "set (reg ! r) \<inter> set (reg ! r') = {}"
      by (simp add: region_partition_def)
    moreover from i have "reg ! r ! i \<in> set (reg ! r)" by simp
    ultimately show "reg ! r ! i \<notin> set (reg ! r')" by blast
  qed
  have 1: "length ?F = length a" using IH S(1) by simp
  have 2: "\<forall>p < np. length (?F ! p) = n" using IH by simp
  have 3: "\<forall>p < np. \<forall>r' \<in> set (r # rs). \<forall>i < length (reg ! r').
              ?F ! p ! (reg ! r' ! i) = val r' ! p ! i"
  proof (intro allI impI ballI)
    fix p r' i assume p: "p < np" and r': "r' \<in> set (r # rs)" and i: "i < length (reg ! r')"
    show "?F ! p ! (reg ! r' ! i) = val r' ! p ! i"
    proof (cases "r' = r")
      case True
      with disj i have "\<forall>r'' \<in> set rs. reg ! r ! i \<notin> set (reg ! r'')" by simp
      with IH p have "?F ! p ! (reg ! r ! i) = ?a' ! p ! (reg ! r ! i)" by simp
      also from S(3) p i True have "\<dots> = val r ! p ! i" by simp
      finally show ?thesis using True by simp
    next
      case False
      with r' have "r' \<in> set rs" by simp
      with IH p i show ?thesis by simp
    qed
  qed
  have 4: "\<forall>p < np. \<forall>c. (\<forall>r' \<in> set (r # rs). c \<notin> set (reg ! r')) \<longrightarrow> ?F ! p ! c = a ! p ! c"
  proof (intro allI impI)
    fix p c assume p: "p < np" and c: "\<forall>r' \<in> set (r # rs). c \<notin> set (reg ! r')"
    then have "?F ! p ! c = ?a' ! p ! c" using IH by simp
    also from S(4) p c have "\<dots> = a ! p ! c" by simp
    finally show "?F ! p ! c = a ! p ! c" .
  qed
  from 1 2 3 4 show ?case by simp
qed

lemma fold_scatter_regions_same:
  assumes "\<forall>r \<in> set rs. \<forall>p < np. \<forall>i < length (reg ! r). a ! p ! (reg ! r ! i) = val r ! p ! i"
  shows "fold (\<lambda>r a. scatter_phases np (reg ! r) (val r) a) rs a = a"
  using assms
proof (induction rs)
  case Nil
  then show ?case by simp
next
  case (Cons r rs)
  then have "scatter_phases np (reg ! r) (val r) a = a"
    by (intro scatter_phases_same) simp
  with Cons show ?case by simp
qed


lemma calcPressII_fold:
  "press (fold (\<lambda>r this. this\<lparr> press := f r (press this) \<rparr>) rs this) = fold f rs (press this) \<and>
   saturation (fold (\<lambda>r this. this\<lparr> press := f r (press this) \<rparr>) rs this) = saturation this"
  by (induction rs arbitrary: this) simp_all

lemma press_calcPressII:
  "press (calcPressII phasePressures reg rec props G grav this) =
     fold (\<lambda>r a. scatter_phases (numPhases props) (reg ! r)
                   (phasePressures G (eqreg_of rec props reg r) (reg ! r) grav) a)
       [0..<length reg] (press this)"
  using calcPressII_fold[of "\<lambda>r a. scatter_phases (numPhases props) (reg ! r)
                   (phasePressures G (eqreg_of rec props reg r) (reg ! r) grav) a"
      "[0..<length reg]" this]
  by (simp add: calcPressII_def Let_def)

lemma saturation_calcPressII:
  "saturation (calcPressII phasePressures reg rec props G grav this) = saturation this"
  using calcPressII_fold[of "\<lambda>r a. scatter_phases (numPhases props) (reg ! r)
                   (phasePressures G (eqreg_of rec props reg r) (reg ! r) grav) a"
      "[0..<length reg]" this]
  by (simp add: calcPressII_def Let_def)

lemma calcSat_loop_Inr:
  assumes "calcSat_loop h phasePressures reg rec props G grav rs this = Inr this'"
  shows "(\<forall>r \<in> set rs. \<exists>sat.
           phaseSaturations h (eqreg_of rec props reg r) (reg ! r) props
             (phasePressures G (eqreg_of rec props reg r) (reg ! r) grav) = Inr sat) \<and>
         press this' =
           fold (\<lambda>r a. scatter_phases (numPhases props) (reg ! r)
                   (phasePressures G (eqreg_of rec props reg r) (reg ! r) grav) a)
             rs (press this) \<and>
         saturation this' =
           fold (\<lambda>r a. scatter_phases (numPhases props) (reg ! r)
                   (projr (phaseSaturations h (eqreg_of rec props reg r) (reg ! r) props
                      (phasePressures G (eqreg_of rec props reg r) (reg ! r) grav))) a)
             rs (saturation this)"
  using assms
proof (induction rs arbitrary: this)
  case Nil
  then show ?case by simp
next
  case (Cons r rs)
  let ?pr = "phasePressures G (eqreg_of rec props reg r) (reg ! r) grav"
  from Cons.prems obtain sat where
    sat: "phaseSaturations h (eqreg_of rec props reg r) (reg ! r) props ?pr = Inr sat"
    by (auto simp: Let_def split: sum.splits)
  let ?this1 = "this\<lparr> press := scatter_phases (numPhases props) (reg ! r) ?pr (press this),
                     saturation := scatter_phases (numPhases props) (reg ! r) sat (saturation this) \<rparr>"
  from Cons.prems sat
  have "calcSat_loop h phasePressures reg rec props G grav rs ?this1 = Inr this'"
    by (simp add: Let_def)
  from Cons.IH[OF this] sat show ?case by simp
qed

subsection \<open>The constructor on the test deck\<close>

lemma ex_region_cells: "region_cells (equilnum deck_two_regions grid_four) = [[0, 2], [1, 3]]"
  by (simp add: region_cells_def equilnum_def deck_two_regions_def upt_conv_Cons numeral_eq_Suc)

lemma ex_region_partition: "region_partition [[0, 2], [1, 3]] (number_of_cells grid_four)"
  by (auto simp: region_partition_def grid_four_def less_Suc_eq numeral_eq_Suc)

lemma ex_getEquil: "getEquil deck_two_regions = Inr [rec_oil_zone, rec_deep]"
  by (simp add: getEquil_def deck_two_regions_def equil_line_def equil_line_deep_def
        rec_oil_zone_def rec_deep_def)

lemma ex_pressures_shaped: "pressures_shaped linear_pressures [[0, 2], [1, 3]] [rec_oil_zone, rec_deep]
    props_three grid_four 10"
  by (simp add: pressures_shaped_def linear_pressures_def props_three_def Let_def
        less_Suc_eq numeral_eq_Suc)


lemma ex_saturations_region0: "phaseSaturations linear_helpers
      \<lparr> reg_rec = rec_oil_zone, reg_repcell = 0, reg_pu = pu_three \<rparr> [0, 2] props_three
      [[200, 1001 / 5], [2003 / 10, 2003 / 10], [401 / 2, 2003 / 10]]
    = Inr [[1 / 5, 2 / 5], [1 / 5, 1 / 10], [3 / 5, 1 / 2]]"
  by (simp add: ex_defs sat_defs)

lemma ex_saturations_region1: "phaseSaturations linear_helpers
      \<lparr> reg_rec = rec_deep, reg_repcell = 1, reg_pu = pu_three \<rparr> [1, 3] props_three
      [[2501 / 10, 2503 / 10], [2503 / 10, 2503 / 10], [1252 / 5, 1251 / 5]]
    = Inr [[3 / 10, 1 / 2], [1 / 10, 1 / 10], [3 / 5, 2 / 5]]"
  by (simp add: ex_defs sat_defs rec_deep_def)

lemma ex_pressures_region0: "linear_pressures grid_four
      \<lparr> reg_rec = rec_oil_zone, reg_repcell = 0, reg_pu = pu_three \<rparr> [0, 2] 10
    = [[200, 1001 / 5], [2003 / 10, 2003 / 10], [401 / 2, 2003 / 10]]"
  by (simp add: linear_pressures_def rec_oil_zone_def)

lemma ex_pressures_region1: "linear_pressures grid_four
      \<lparr> reg_rec = rec_deep, reg_repcell = 1, reg_pu = pu_three \<rparr> [1, 3] 10
    = [[2501 / 10, 2503 / 10], [2503 / 10, 2503 / 10], [1252 / 5, 1251 / 5]]"
  by (simp add: linear_pressures_def rec_deep_def)

lemma ex_eqreg0: "eqreg_of [rec_oil_zone, rec_deep] props_three [[0, 2], [1, 3]] 0
   = \<lparr> reg_rec = rec_oil_zone, reg_repcell = 0, reg_pu = pu_three \<rparr>"
  by (simp add: eqreg_of_def props_three_def)

lemma ex_eqreg1: "eqreg_of [rec_oil_zone, rec_deep] props_three [[0, 2], [1, 3]] (Suc 0)
   = \<lparr> reg_rec = rec_deep, reg_repcell = 1, reg_pu = pu_three \<rparr>"
  by (simp add: eqreg_of_def props_three_def)

lemma ex_numPhases: "numPhases props_three = 3" by (simp add: props_three_def)

lemma scatter_phases_three:
  "scatter_phases 3 [c0, c1] [[a0, a1], [b0, b1], [g0, g1]] [x, y, z]
     = [x[c0 := a0, c1 := a1], y[c0 := b0, c1 := b1], z[c0 := g0, c1 := g1]]"
  by (simp add: scatter_phases_def eval_nat_numeral)

lemma update_four:
  "[x0, x1, x2, x3][0 := a, 2 := b] = [a, x1, b, x3]"
  "[x0, x1, x2, x3][1 := a, 3 := b] = [x0, a, x2, b]"
  by (simp_all add: eval_nat_numeral)

lemma zero_arrays:
  "replicate (numPhases props_three) (replicate (number_of_cells grid_four) (0::real))
     = [[0, 0, 0, 0], [0, 0, 0, 0], [0, 0, 0, 0]]"
  by (simp add: props_three_def grid_four_def eval_nat_numeral)

lemma ex_calcPressII:
  "calcPressII linear_pressures [[0, 2], [1, 3]] [rec_oil_zone, rec_deep] props_three grid_four 10
     \<lparr> press = [[0, 0, 0, 0], [0, 0, 0, 0], [0, 0, 0, 0]],
       saturation = [[0, 0, 0, 0], [0, 0, 0, 0], [0, 0, 0, 0]] \<rparr>
   = \<lparr> press = [[200, 2501 / 10, 1001 / 5, 2503 / 10],
                 [2003 / 10, 2503 / 10, 2003 / 10, 2503 / 10],
                 [401 / 2, 1252 / 5, 2003 / 10, 1251 / 5]],
       saturation = [[0, 0, 0, 0], [0, 0, 0, 0], [0, 0, 0, 0]] \<rparr>"
  using ex_pressures_region0 ex_pressures_region1 ex_eqreg0 ex_eqreg1
  by (simp add: calcPressII_def Let_def ex_numPhases scatter_phases_three update_four)

lemma ex_calcSat:
  "calcSat linear_helpers linear_pressures [[0, 2], [1, 3]] [rec_oil_zone, rec_deep] props_three
     grid_four 10
     \<lparr> press = [[200, 2501 / 10, 1001 / 5, 2503 / 10],
                 [2003 / 10, 2503 / 10, 2003 / 10, 2503 / 10],
                 [401 / 2, 1252 / 5, 2003 / 10, 1251 / 5]],
       saturation = [[0, 0, 0, 0], [0, 0, 0, 0], [0, 0, 0, 0]] \<rparr>
   = Inr \<lparr> press = [[200, 2501 / 10, 1001 / 5, 2503 / 10],
                     [2003 / 10, 2503 / 10, 2003 / 10, 2503 / 10],
                     [401 / 2, 1252 / 5, 2003 / 10, 1251 / 5]],
            saturation = [[1 / 5, 3 / 10, 2 / 5, 1 / 2], [1 / 5, 1 / 10, 1 / 10, 1 / 10],
                          [3 / 5, 3 / 5, 1 / 2, 2 / 5]] \<rparr>"
  using ex_pressures_region0 ex_pressures_region1 ex_saturations_region0 ex_saturations_region1 ex_eqreg0 ex_eqreg1
  by (simp add: calcSat_def Let_def ex_numPhases scatter_phases_three update_four)

lemma ex_init: "PhasePressureSaturationComputer_init linear_helpers linear_pressures region_cells
     props_three deck_two_regions grid_four 10
   = Inr \<lparr> press = [[200, 2501 / 10, 1001 / 5, 2503 / 10],
                     [2003 / 10, 2503 / 10, 2003 / 10, 2503 / 10],
                     [401 / 2, 1252 / 5, 2003 / 10, 1251 / 5]],
            saturation = [[1 / 5, 3 / 10, 2 / 5, 1 / 2], [1 / 5, 1 / 10, 1 / 10, 1 / 10],
                          [3 / 5, 3 / 5, 1 / 2, 2 / 5]] \<rparr>"
  by (simp only: PhasePressureSaturationComputer_init_def Let_def ex_getEquil ex_region_cells zero_arrays
        sum.case ex_calcPressII ex_calcSat)

subsection \<open>The constructor\<close>

text \<open>
  Claim C6. When the constructor returns and the region mapping partitions the cells,
  every global cell holds, in \<open>press()\<close> and in \<open>saturation()\<close>, the value that
  \<open>phasePressures\<close> and \<open>phaseSaturations\<close> produce for the region of the cell at the
  local index of the cell, for every phase: no region overwrites a cell of another. The
  pressures that \<open>calcSat\<close> computes and writes a second time leave \<open>pp_\<close> as
  \<open>calcPressII\<close> left it.
\<close>

theorem computer_holds_region_results:
  assumes init: "PhasePressureSaturationComputer_init h phasePressures RegionMapping props deck G grav
                   = Inr this"
      and rec: "getEquil deck = Inr rec"
      and eqlmap: "eqlmap = RegionMapping (equilnum deck G)"
      and part: "region_partition eqlmap (number_of_cells G)"
      and shaped: "pressures_shaped phasePressures eqlmap rec props G grav"
  shows "(\<forall>r < length eqlmap. \<forall>i < length (eqlmap ! r). \<forall>p < numPhases props.
            let cells = eqlmap ! r;
                eqreg = eqreg_of rec props eqlmap r;
                press_r = phasePressures G eqreg cells grav
            in press this ! p ! (cells ! i) = press_r ! p ! i \<and>
               (\<exists>sat. phaseSaturations h eqreg cells props press_r = Inr sat \<and>
                      saturation this ! p ! (cells ! i) = sat ! p ! i)) \<and>
         press this =
           press (calcPressII phasePressures eqlmap rec props G grav
                    \<lparr> press = replicate (numPhases props) (replicate (number_of_cells G) 0),
                      saturation = replicate (numPhases props) (replicate (number_of_cells G) 0) \<rparr>)"
proof -
  let ?np = "numPhases props" and ?n = "number_of_cells G"
  let ?z = "replicate ?np (replicate ?n (0::real))"
  let ?this0 = "\<lparr> press = ?z, saturation = ?z \<rparr>"
  let ?thisP = "calcPressII phasePressures eqlmap rec props G grav ?this0"
  let ?pr = "\<lambda>r. phasePressures G (eqreg_of rec props eqlmap r) (eqlmap ! r) grav"
  let ?ps = "\<lambda>r. phaseSaturations h (eqreg_of rec props eqlmap r) (eqlmap ! r) props (?pr r)"
  let ?rs = "[0..<length eqlmap]"
  let ?Fp = "\<lambda>r a. scatter_phases ?np (eqlmap ! r) (?pr r) a"
  let ?Fs = "\<lambda>r a. scatter_phases ?np (eqlmap ! r) (projr (?ps r)) a"
  from init rec eqlmap
  have loop: "calcSat_loop h phasePressures eqlmap rec props G grav ?rs ?thisP = Inr this"
    by (simp add: PhasePressureSaturationComputer_init_def calcSat_def Let_def)
  note L = calcSat_loop_Inr[OF loop]
  have rs: "distinct ?rs" "\<forall>r \<in> set ?rs. r < length eqlmap" by simp_all
  have z: "?np \<le> length ?z" "\<forall>p < ?np. length (?z ! p) = ?n" by simp_all
  have P: "press ?thisP = fold ?Fp ?rs ?z"
    by (simp add: press_calcPressII)
  note FP = fold_scatter_regions[OF part rs z, of ?pr]
  have same: "fold ?Fp ?rs (press ?thisP) = press ?thisP"
    using FP P by (intro fold_scatter_regions_same) simp
  with L have press: "press this = press ?thisP" by simp
  have S: "saturation this = fold ?Fs ?rs ?z"
    using L by (simp add: saturation_calcPressII)
  note FS = fold_scatter_regions[OF part rs z, of "\<lambda>r. projr (?ps r)"]
  have "\<forall>r < length eqlmap. \<forall>i < length (eqlmap ! r). \<forall>p < ?np.
          press this ! p ! (eqlmap ! r ! i) = ?pr r ! p ! i \<and>
          (\<exists>sat. ?ps r = Inr sat \<and> saturation this ! p ! (eqlmap ! r ! i) = sat ! p ! i)"
  proof (intro allI impI)
    fix r i p assume r: "r < length eqlmap" and i: "i < length (eqlmap ! r)" and p: "p < ?np"
    from r have rin: "r \<in> set ?rs" by simp
    from FP p rin i have "fold ?Fp ?rs ?z ! p ! (eqlmap ! r ! i) = ?pr r ! p ! i" by blast
    with press P have a: "press this ! p ! (eqlmap ! r ! i) = ?pr r ! p ! i" by simp
    from L rin obtain sat where sat: "?ps r = Inr sat" by blast
    from FS p rin i have "fold ?Fs ?rs ?z ! p ! (eqlmap ! r ! i) = projr (?ps r) ! p ! i" by blast
    with S sat have "saturation this ! p ! (eqlmap ! r ! i) = sat ! p ! i" by simp
    with a sat show "press this ! p ! (eqlmap ! r ! i) = ?pr r ! p ! i \<and>
          (\<exists>sat. ?ps r = Inr sat \<and> saturation this ! p ! (eqlmap ! r ! i) = sat ! p ! i)"
      by blast
  qed
  with press show ?thesis by (simp add: Let_def)
qed

theorem computer_holds_region_results_witness:
  "PhasePressureSaturationComputer_init linear_helpers linear_pressures region_cells
     props_three deck_two_regions grid_four 10
   = Inr \<lparr> press = [[200, 2501 / 10, 1001 / 5, 2503 / 10],
                     [2003 / 10, 2503 / 10, 2003 / 10, 2503 / 10],
                     [401 / 2, 1252 / 5, 2003 / 10, 1251 / 5]],
            saturation = [[1 / 5, 3 / 10, 2 / 5, 1 / 2], [1 / 5, 1 / 10, 1 / 10, 1 / 10],
                          [3 / 5, 3 / 5, 1 / 2, 2 / 5]] \<rparr> \<and>
   getEquil deck_two_regions = Inr [rec_oil_zone, rec_deep] \<and>
   [[0, 2], [1, 3]] = region_cells (equilnum deck_two_regions grid_four) \<and>
   region_partition [[0, 2], [1, 3]] (number_of_cells grid_four) \<and>
   pressures_shaped linear_pressures [[0, 2], [1, 3]] [rec_oil_zone, rec_deep]
     props_three grid_four 10 \<and>
   [[200, 2501 / 10, 1001 / 5, 2503 / 10 :: real]] ! 0 ! ([[0, 2], [1, 3]] ! 1 ! 1)
     = linear_pressures grid_four
         (eqreg_of [rec_oil_zone, rec_deep] props_three [[0, 2], [1, 3]] 1) [1, 3] 10 ! 0 ! 1 \<and>
   (\<exists>sat. phaseSaturations linear_helpers
            (eqreg_of [rec_oil_zone, rec_deep] props_three [[0, 2], [1, 3]] 1) [1, 3] props_three
            (linear_pressures grid_four
               (eqreg_of [rec_oil_zone, rec_deep] props_three [[0, 2], [1, 3]] 1) [1, 3] 10)
            = Inr sat \<and>
          [[1 / 5, 3 / 10, 2 / 5, 1 / 2 :: real]] ! 0 ! ([[0, 2], [1, 3]] ! 1 ! 1) = sat ! 0 ! 1)"
proof -
  let ?st = "\<lparr> press = [[200, 2501 / 10, 1001 / 5, 2503 / 10],
                     [2003 / 10, 2503 / 10, 2003 / 10, 2503 / 10],
                     [401 / 2, 1252 / 5, 2003 / 10, 1251 / 5]],
            saturation = [[1 / 5, 3 / 10, 2 / 5, 1 / 2], [1 / 5, 1 / 10, 1 / 10, 1 / 10],
                          [3 / 5, 3 / 5, 1 / 2, 2 / 5 :: real]] \<rparr>"
  let ?reg = "[[0, 2], [1, 3 :: nat]]"
  note T = computer_holds_region_results[OF ex_init ex_getEquil ex_region_cells[symmetric] ex_region_partition ex_pressures_shaped]
  from T have a: "\<forall>r < length ?reg. \<forall>i < length (?reg ! r). \<forall>p < numPhases props_three.
            let cells = ?reg ! r;
                eqreg = eqreg_of [rec_oil_zone, rec_deep] props_three ?reg r;
                press_r = linear_pressures grid_four eqreg cells 10
            in press ?st ! p ! (cells ! i) = press_r ! p ! i \<and>
               (\<exists>sat. phaseSaturations linear_helpers eqreg cells props_three press_r = Inr sat \<and>
                      saturation ?st ! p ! (cells ! i) = sat ! p ! i)"
    by (rule conjunct1)
  have "1 < length ?reg" "1 < length (?reg ! 1)" "0 < numPhases props_three"
    by (simp_all add: ex_numPhases)
  with a have "let cells = ?reg ! 1;
                eqreg = eqreg_of [rec_oil_zone, rec_deep] props_three ?reg 1;
                press_r = linear_pressures grid_four eqreg cells 10
            in press ?st ! 0 ! (cells ! 1) = press_r ! 0 ! 1 \<and>
               (\<exists>sat. phaseSaturations linear_helpers eqreg cells props_three press_r = Inr sat \<and>
                      saturation ?st ! 0 ! (cells ! 1) = sat ! 0 ! 1)"
    by blast
  then have c: "[[200, 2501 / 10, 1001 / 5, 2503 / 10 :: real]] ! 0 ! (?reg ! 1 ! 1)
     = linear_pressures grid_four
         (eqreg_of [rec_oil_zone, rec_deep] props_three ?reg 1) [1, 3] 10 ! 0 ! 1 \<and>
   (\<exists>sat. phaseSaturations linear_helpers
            (eqreg_of [rec_oil_zone, rec_deep] props_three ?reg 1) [1, 3] props_three
            (linear_pressures grid_four
               (eqreg_of [rec_oil_zone, rec_deep] props_three ?reg 1) [1, 3] 10)
            = Inr sat \<and>
          [[1 / 5, 3 / 10, 2 / 5, 1 / 2 :: real]] ! 0 ! (?reg ! 1 ! 1) = sat ! 0 ! 1)"
    by (simp add: Let_def)
  from ex_init ex_getEquil ex_region_cells[symmetric] ex_region_partition ex_pressures_shaped c show ?thesis by (intro conjI) blast+
qed

section \<open>Properties of equilnum\<close>

text \<open>
  Claim C8. Without an \<open>EQLNUM\<close> field in the deck, \<open>equilnum\<close> returns as many
  entries as the grid has cells, each of them 0; with the field, it returns the array of
  the deck as it is.
\<close>

theorem equilnum_default_region_zero:
  "(\<not> hasField deck ''EQLNUM'' \<longrightarrow>
      length (equilnum deck G) = number_of_cells G \<and>
      (\<forall>c < number_of_cells G. equilnum deck G ! c = 0)) \<and>
   (hasField deck ''EQLNUM'' \<longrightarrow> equilnum deck G = getIntegerValue deck ''EQLNUM'')"
  by (simp add: equilnum_def)

theorem equilnum_default_region_zero_witness:
  "\<not> hasField deck_one_region ''EQLNUM'' \<and>
   equilnum deck_one_region grid_four = [0, 0, 0, 0] \<and>
   length (equilnum deck_one_region grid_four) = number_of_cells grid_four \<and>
   hasField deck_two_regions ''EQLNUM'' \<and>
   equilnum deck_two_regions grid_four = [0, 1, 0, 1] \<and>
   getIntegerValue deck_two_regions ''EQLNUM'' = [0, 1, 0, 1]"
proof -
  have a: "\<not> hasField deck_one_region ''EQLNUM''" by (simp add: deck_one_region_def)
  have b: "hasField deck_two_regions ''EQLNUM''" by (simp add: deck_two_regions_def)
  from equilnum_default_region_zero[of deck_one_region grid_four] a
  have l: "length (equilnum deck_one_region grid_four) = number_of_cells grid_four"
    and z: "\<forall>c < number_of_cells grid_four. equilnum deck_one_region grid_four ! c = 0"
    by blast+
  have n: "number_of_cells grid_four = 4" by (simp add: grid_four_def)
  from l z n have e: "equilnum deck_one_region grid_four = [0, 0, 0, 0]"
    by (auto simp: list_eq_iff_nth_eq less_Suc_eq numeral_eq_Suc)
  from equilnum_default_region_zero[of deck_two_regions grid_four] b
  have "equilnum deck_two_regions grid_four = getIntegerValue deck_two_regions ''EQLNUM''"
    by blast
  moreover have "getIntegerValue deck_two_regions ''EQLNUM'' = [0, 1, 0, 1]"
    by (simp add: deck_two_regions_def)
  ultimately show ?thesis using a b l e by simp
qed

section \<open>Properties of the constructor of FVVelocity2P\<close>

text \<open>
  Claim C10, as stated, fails: the formulation is an \<open>int\<close>, and the constructor
  compares it with the one value \<open>other\<close>. The formulation 5 is none of the three
  velocity indices, and the constructor returns.
\<close>

theorem velocity_formulation_counterexample:
  "VelocityFormulation \<lparr> EnableCompressibility = False, VelocityFormulation = 5 \<rparr>
     \<notin> {velocityW indices, velocityNW indices, velocityTotal indices} \<and>
   FVVelocity2P indices \<lparr> EnableCompressibility = False, VelocityFormulation = 5 \<rparr> (Inr ())
     = Inr ()"
  by (simp add: FVVelocity2P_def indices_def other_def)

text \<open>
  Claim C10, amended. The constructor throws when compressibility is enabled together
  with the total-velocity formulation, and when the formulation is the value \<open>other\<close>
  (999); for every other formulation it returns, whether or not the value is one of the
  three velocity indices. No check of the formulation comes later: on every
  intersection \<open>calculateVelocity\<close> throws exactly when a boundary face with a Dirichlet
  pressure condition meets a saturation type that is neither \<open>Sw\<close> nor \<open>Sn\<close>, whatever
  the formulation is.
\<close>

theorem velocity_formulation_checks:
  "(EnableCompressibility tag \<and> VelocityFormulation tag = velocityTotal idx \<longrightarrow>
      FVVelocity2P idx tag (Inr this) = Inl (NotImplemented
        ''Total velocity - global pressure - model cannot be used with compressible fluids!'')) \<and>
   (VelocityFormulation tag = other \<longrightarrow> (\<exists>e. FVVelocity2P idx tag (Inr this) = Inl e)) \<and>
   (\<not> (EnableCompressibility tag \<and> VelocityFormulation tag = velocityTotal idx) \<and>
    VelocityFormulation tag = other \<longrightarrow>
      FVVelocity2P idx tag (Inr this) = Inl (NotImplemented ''Velocity type not supported!'')) \<and>
   (\<not> (EnableCompressibility tag \<and> VelocityFormulation tag = velocityTotal idx) \<and>
    VelocityFormulation tag \<noteq> other \<longrightarrow>
      FVVelocity2P idx tag (Inr this) = Inr this) \<and>
   ((\<exists>e. face_velocities idx (VelocityFormulation tag) pressureType saturationType isIt
            inner dirichlet neumann vel = Inl e) \<longleftrightarrow>
      boundary isIt \<and> bcTypePress_dirichlet isIt \<and>
      saturationType \<noteq> saturationW idx \<and> saturationType \<noteq> saturationNW idx) \<and>
   (\<forall>e. face_velocities idx (VelocityFormulation tag) pressureType saturationType isIt
            inner dirichlet neumann vel = Inl e \<longrightarrow>
        e = RangeError ''saturation type not implemented'')"
proof -
  have ctor: "(EnableCompressibility tag \<and> VelocityFormulation tag = velocityTotal idx \<longrightarrow>
      FVVelocity2P idx tag (Inr this) = Inl (NotImplemented
        ''Total velocity - global pressure - model cannot be used with compressible fluids!'')) \<and>
   (VelocityFormulation tag = other \<longrightarrow> (\<exists>e. FVVelocity2P idx tag (Inr this) = Inl e)) \<and>
   (\<not> (EnableCompressibility tag \<and> VelocityFormulation tag = velocityTotal idx) \<and>
    VelocityFormulation tag = other \<longrightarrow>
      FVVelocity2P idx tag (Inr this) = Inl (NotImplemented ''Velocity type not supported!'')) \<and>
   (\<not> (EnableCompressibility tag \<and> VelocityFormulation tag = velocityTotal idx) \<and>
    VelocityFormulation tag \<noteq> other \<longrightarrow>
      FVVelocity2P idx tag (Inr this) = Inr this)"
    by (simp add: FVVelocity2P_def Let_def)
  have face: "(\<exists>e. face_velocities idx (VelocityFormulation tag) pressureType saturationType isIt
            inner dirichlet neumann vel = Inl e) \<longleftrightarrow>
      boundary isIt \<and> bcTypePress_dirichlet isIt \<and>
      saturationType \<noteq> saturationW idx \<and> saturationType \<noteq> saturationNW idx"
    by (auto simp: face_velocities_def Let_def split: prod.splits if_splits)
  have msg: "\<forall>e. face_velocities idx (VelocityFormulation tag) pressureType saturationType isIt
            inner dirichlet neumann vel = Inl e \<longrightarrow>
        e = RangeError ''saturation type not implemented''"
    by (auto simp: face_velocities_def Let_def split: prod.splits if_splits)
  from ctor face msg show ?thesis by blast
qed

theorem velocity_formulation_checks_witness:
  "FVVelocity2P indices \<lparr> EnableCompressibility = True, VelocityFormulation = 2 \<rparr> (Inr ())
     = Inl (NotImplemented
        ''Total velocity - global pressure - model cannot be used with compressible fluids!'') \<and>
   FVVelocity2P indices \<lparr> EnableCompressibility = False, VelocityFormulation = 999 \<rparr> (Inr ())
     = Inl (NotImplemented ''Velocity type not supported!'') \<and>
   FVVelocity2P indices \<lparr> EnableCompressibility = False, VelocityFormulation = 2 \<rparr> (Inr ())
     = Inr () \<and>
   FVVelocity2P indices \<lparr> EnableCompressibility = True, VelocityFormulation = 0 \<rparr> (Inr ())
     = Inr () \<and>
   FVVelocity2P indices \<lparr> EnableCompressibility = True, VelocityFormulation = 1 \<rparr> (Inr ())
     = Inr () \<and>
   face_velocities indices 0 (pressureW indices) 7
       \<lparr> neighbor = False, boundary = True, bcTypePress_dirichlet = True \<rparr>
       ([1, 2], [3, 4], [5, 6]) ([1, 2], [3, 4], [5, 6]) ([1, 2], [3, 4]) ([0, 0], [0, 0])
     = Inl (RangeError ''saturation type not implemented'') \<and>
   face_velocities indices 7 (pressureGlobal indices) (saturationW indices)
       \<lparr> neighbor = True, boundary = False, bcTypePress_dirichlet = False \<rparr>
       ([1, 2], [3, 4], [5, 6]) ([1, 2], [3, 4], [5, 6]) ([1, 2], [3, 4]) ([0, 0], [0, 0])
     = Inr ([5, 6], [0, 0]) \<and>
   face_velocities indices 2 (pressureW indices) (saturationW indices)
       \<lparr> neighbor = False, boundary = True, bcTypePress_dirichlet = False \<rparr>
       ([1, 2], [3, 4], [5, 6]) ([1, 2], [3, 4], [5, 6]) ([1, 2], [3, 4]) ([0, 0], [0, 0])
     = Inr ([4, 6], [0, 0])"
proof -
  let ?t = "\<lambda>c v. \<lparr> EnableCompressibility = c, VelocityFormulation = v \<rparr>"
  have 1: "FVVelocity2P indices (?t True 2) (Inr ()) = Inl (NotImplemented
        ''Total velocity - global pressure - model cannot be used with compressible fluids!'')"
    using velocity_formulation_checks[of "?t True 2" indices "()"]
    by (simp add: indices_def)
  have 2: "FVVelocity2P indices (?t False 999) (Inr ()) = Inl (NotImplemented ''Velocity type not supported!'')"
    using velocity_formulation_checks[of "?t False 999" indices "()"]
    by (simp add: indices_def other_def)
  have 3: "FVVelocity2P indices (?t False 2) (Inr ()) = Inr ()"
    using velocity_formulation_checks[of "?t False 2" indices "()"]
    by (simp add: indices_def other_def)
  have 4: "FVVelocity2P indices (?t True 0) (Inr ()) = Inr ()"
    using velocity_formulation_checks[of "?t True 0" indices "()"]
    by (simp add: indices_def other_def)
  have 5: "FVVelocity2P indices (?t True 1) (Inr ()) = Inr ()"
    using velocity_formulation_checks[of "?t True 1" indices "()"]
    by (simp add: indices_def other_def)
  let ?f = "face_velocities indices 0 (pressureW indices) 7
       \<lparr> neighbor = False, boundary = True, bcTypePress_dirichlet = True \<rparr>
       ([1, 2], [3, 4], [5, 6]) ([1, 2], [3, 4], [5, 6]) ([1, 2], [3, 4]) ([0, 0], [0, 0])"
  have "\<exists>e. ?f = Inl e"
    using velocity_formulation_checks[of "?t True 0" indices "()" "pressureW indices" 7
        "\<lparr> neighbor = False, boundary = True, bcTypePress_dirichlet = True \<rparr>"
        "([1, 2], [3, 4], [5, 6])" "([1, 2], [3, 4], [5, 6])" "([1, 2], [3, 4])" "([0, 0], [0, 0])"]
    by (simp add: indices_def)
  moreover have "\<forall>e. ?f = Inl e \<longrightarrow> e = RangeError ''saturation type not implemented''"
    using velocity_formulation_checks[of "?t True 0" indices "()" "pressureW indices" 7
        "\<lparr> neighbor = False, boundary = True, bcTypePress_dirichlet = True \<rparr>"
        "([1, 2], [3, 4], [5, 6])" "([1, 2], [3, 4], [5, 6])" "([1, 2], [3, 4])" "([0, 0], [0, 0])"]
    by simp
  ultimately have 6: "?f = Inl (RangeError ''saturation type not implemented'')" by blast
  have 7: "face_velocities indices 7 (pressureGlobal indices) (saturationW indices)
       \<lparr> neighbor = True, boundary = False, bcTypePress_dirichlet = False \<rparr>
       ([1, 2], [3, 4], [5, 6]) ([1, 2], [3, 4], [5, 6]) ([1, 2], [3, 4]) ([0, 0], [0, 0])
     = Inr ([5, 6], [0, 0])"
    by (simp add: face_velocities_def phase_velocities_stored_def indices_def)
  have 8: "face_velocities indices 2 (pressureW indices) (saturationW indices)
       \<lparr> neighbor = False, boundary = True, bcTypePress_dirichlet = False \<rparr>
       ([1, 2], [3, 4], [5, 6]) ([1, 2], [3, 4], [5, 6]) ([1, 2], [3, 4]) ([0, 0], [0, 0])
     = Inr ([4, 6], [0, 0])"
    by (simp add: face_velocities_def neumann_velocities_stored_def indices_def)
  from 1 2 3 4 5 6 7 8 show ?thesis by blast
qed

end
